theory Spec2Isabelle
  imports Complex_Main "HOL-Library.AList"
begin

section \<open>SFU resource manager (backend/src/signaling/mediasoupHandler.js)\<close>

text \<open>
  The handler keeps four JavaScript \<open>Map\<close>s and a round-robin index. A \<open>Map\<close> iterates in
  insertion order, \<open>set\<close> on a present key replaces the value in place and \<open>delete\<close> removes
  the entry: an association list with \<open>AList.update\<close> and \<open>AList.delete\<close>, read with
  \<open>map_of\<close>.

  The engine's objects are reduced to what the handler's bookkeeping depends on: a router
  has an id and the worker it runs on, a transport the id of the router that created it,
  a producer its transport and the router it lives in (the router of that transport), a
  consumer its transport and its producer.

  The media engine is an external collaborator. What the handler can observe of it is
  modelled by three fields: \<open>engine_next\<close>, the supply of fresh object ids,
  \<open>engine_routers\<close>, the ids of the routers the engine has created and not closed, and
  \<open>engine_closed\<close>, the ids on which \<open>close()\<close> has been called. Engine calls are taken
  to succeed unless a parameter says otherwise.
\<close>

type_synonym broadcastId = string

record router =
  r_id :: nat
  r_worker :: nat

record transport =
  t_router :: nat

record producer =
  p_transport :: nat
  p_router :: nat
  p_kind :: string

record consumer =
  c_transport :: nat
  c_producer :: nat

record handler =
  workers :: "nat list"
  routers :: "(broadcastId \<times> router) list"
  transports :: "(nat \<times> transport) list"
  producers :: "(nat \<times> producer) list"
  consumers :: "(nat \<times> consumer) list"
  nextWorkerIndex :: nat
  engine_next :: nat
  engine_routers :: "nat list"
  engine_closed :: "nat list"

datatype error =
  TransportNotFound | ProducerNotFound | CannotConsume | NoWorker | EngineFailure

text \<open>
  \<open>getNextWorker\<close> (lines 38-42). When the index points at no worker (an empty pool)
  \<open>workers[nextWorkerIndex]\<close> is \<open>undefined\<close> and the caller's \<open>worker.createRouter\<close>
  throws: the model returns \<open>None\<close>.
\<close>

definition getNextWorker :: "handler \<Rightarrow> (nat \<times> handler) option" where
  "getNextWorker h =
     (if nextWorkerIndex h < length (workers h)
      then Some (workers h ! nextWorkerIndex h,
                 h\<lparr>nextWorkerIndex := (nextWorkerIndex h + 1) mod length (workers h)\<rparr>)
      else None)"

text \<open>
  \<open>createRouter\<close> (lines 44-66): takes the next worker, has the engine create a router
  and stores it under the broadcast id. There is no lookup of an existing entry.
\<close>

definition createRouter :: "broadcastId \<Rightarrow> handler \<Rightarrow> error + (router \<times> handler)" where
  "createRouter b h =
     (case getNextWorker h of
        None \<Rightarrow> Inl NoWorker
      | Some (w, h1) \<Rightarrow>
          let r = \<lparr>r_id = engine_next h1, r_worker = w\<rparr>
          in Inr (r, h1\<lparr>routers := AList.update b r (routers h1),
                       engine_next := Suc (engine_next h1),
                       engine_routers := engine_routers h1 @ [r_id r]\<rparr>))"

definition getRouter :: "broadcastId \<Rightarrow> handler \<Rightarrow> router option" where
  "getRouter b h = map_of (routers h) b"

text \<open>\<open>deleteRouter\<close> (lines 72-80).\<close>

definition deleteRouter :: "broadcastId \<Rightarrow> handler \<Rightarrow> handler" where
  "deleteRouter b h =
     (case map_of (routers h) b of
        None \<Rightarrow> h
      | Some r \<Rightarrow> h\<lparr>routers := AList.delete b (routers h),
                    engine_routers := removeAll (r_id r) (engine_routers h),
                    engine_closed := engine_closed h @ [r_id r]\<rparr>)"

text \<open>
  \<open>createWebRtcTransport\<close> (lines 82-121): \<open>getRouter(b) || await createRouter(b)\<close>, then
  the router creates a transport, which is stored under its id. The \<open>type\<close> argument is
  not used by the source. The result is the new transport's id.
\<close>

definition createWebRtcTransport :: "broadcastId \<Rightarrow> handler \<Rightarrow> error + (nat \<times> handler)" where
  "createWebRtcTransport b h =
     (case (case getRouter b h of
              Some r \<Rightarrow> Inr (r, h)
            | None \<Rightarrow> createRouter b h) of
        Inl e \<Rightarrow> Inl e
      | Inr (r, h1) \<Rightarrow>
          let tid = engine_next h1
          in Inr (tid, h1\<lparr>transports := AList.update tid \<lparr>t_router = r_id r\<rparr> (transports h1),
                          engine_next := Suc tid\<rparr>))"

text \<open>\<open>createProducer\<close> (lines 134-159).\<close>

definition createProducer :: "nat \<Rightarrow> string \<Rightarrow> handler \<Rightarrow> error + (nat \<times> handler)" where
  "createProducer tid kind h =
     (case map_of (transports h) tid of
        None \<Rightarrow> Inl TransportNotFound
      | Some t \<Rightarrow>
          let pid = engine_next h
          in Inr (pid, h\<lparr>producers :=
                            AList.update pid
                              \<lparr>p_transport = tid, p_router = t_router t, p_kind = kind\<rparr>
                              (producers h),
                         engine_next := Suc pid\<rparr>))"

text \<open>
  \<open>createConsumer\<close> (lines 161-209). The two engine operations it calls are parameters:
  \<open>canConsume r pid caps\<close> is \<open>router.canConsume\<close> on router \<open>r\<close>, and
  \<open>consume tid pid caps\<close> says whether \<open>transport.consume\<close> succeeds (it throws
  otherwise). The compatibility query is put to every registered router in turn
  (\<open>Array.from(this.routers.values()).find\<close>); the transport's own router is not looked up.
\<close>

definition createConsumer ::
  "(router \<Rightarrow> nat \<Rightarrow> 'caps \<Rightarrow> bool) \<Rightarrow> (nat \<Rightarrow> nat \<Rightarrow> 'caps \<Rightarrow> bool) \<Rightarrow>
   nat \<Rightarrow> nat \<Rightarrow> 'caps \<Rightarrow> handler \<Rightarrow> error + (nat \<times> handler)" where
  "createConsumer canConsume consume tid pid caps h =
     (case map_of (transports h) tid of
        None \<Rightarrow> Inl TransportNotFound
      | Some t \<Rightarrow>
         (case map_of (producers h) pid of
            None \<Rightarrow> Inl ProducerNotFound
          | Some p \<Rightarrow>
             (case find (\<lambda>r. canConsume r pid caps) (map snd (routers h)) of
                None \<Rightarrow> Inl CannotConsume
              | Some r \<Rightarrow>
                  if \<not> consume tid pid caps then Inl EngineFailure
                  else let cid = engine_next h
                       in Inr (cid, h\<lparr>consumers :=
                                         AList.update cid \<lparr>c_transport = tid, c_producer = pid\<rparr>
                                           (consumers h),
                                       engine_next := Suc cid\<rparr>))))"

text \<open>
  The two operations as the engine (mediasoup) performs them. \<open>router.canConsume\<close>
  answers false for a producer that does not live in that router, and otherwise whether
  the producer's stream fits the capabilities (\<open>compatible\<close>, the engine's codec
  matching). \<open>transport.consume\<close> looks the producer up in the router of the transport and
  throws when it is not there; \<open>accepts\<close> stands for the other reasons the engine may
  have to refuse the call.
\<close>

definition routerCanConsume ::
  "(nat \<Rightarrow> 'caps \<Rightarrow> bool) \<Rightarrow> handler \<Rightarrow> router \<Rightarrow> nat \<Rightarrow> 'caps \<Rightarrow> bool" where
  "routerCanConsume compatible h r pid caps =
     (case map_of (producers h) pid of
        None \<Rightarrow> False
      | Some p \<Rightarrow> p_router p = r_id r \<and> compatible pid caps)"

definition transportConsume ::
  "(nat \<Rightarrow> nat \<Rightarrow> 'caps \<Rightarrow> bool) \<Rightarrow> handler \<Rightarrow> nat \<Rightarrow> nat \<Rightarrow> 'caps \<Rightarrow> bool" where
  "transportConsume accepts h tid pid caps =
     (case map_of (transports h) tid of
        None \<Rightarrow> False
      | Some t \<Rightarrow>
         (case map_of (producers h) pid of
            None \<Rightarrow> False
          | Some p \<Rightarrow> p_router p = t_router t \<and> accepts tid pid caps))"

text \<open>
  \<open>closeTransport\<close> (lines 275-283). \<open>transport.close()\<close> makes the engine emit
  \<open>transportclose\<close> on the producers and consumers of the transport and \<open>producerclose\<close> on
  the consumers of those producers; the listeners registered at lines 146-150 and 188-198
  close each of them and delete it from its map.
\<close>

definition closeTransport :: "nat \<Rightarrow> handler \<Rightarrow> handler" where
  "closeTransport tid h =
     (case map_of (transports h) tid of
        None \<Rightarrow> h
      | Some t \<Rightarrow>
          let gone_p = map fst (filter (\<lambda>(pid, p). p_transport p = tid) (producers h));
              gone_c = map fst (filter (\<lambda>(cid, c). c_transport c = tid \<or> c_producer c \<in> set gone_p)
                                  (consumers h))
          in h\<lparr>transports := AList.delete tid (transports h),
                producers := filter (\<lambda>(pid, p). pid \<notin> set gone_p) (producers h),
                consumers := filter (\<lambda>(cid, c). cid \<notin> set gone_c) (consumers h),
                engine_closed := engine_closed h @ tid # gone_p @ gone_c\<rparr>)"

text \<open>
  \<open>cleanupBroadcast\<close> (lines 337-357). When the broadcast has a router, the loop at
  lines 345-348 pushes the id of every entry of \<open>this.transports\<close>, whatever router made
  the transport, and each collected id is closed before the router is deleted.
\<close>

definition cleanupBroadcast :: "broadcastId \<Rightarrow> handler \<Rightarrow> handler" where
  "cleanupBroadcast b h =
     (case getRouter b h of
        None \<Rightarrow> h
      | Some r \<Rightarrow>
          let transportsToClose = map fst (transports h)
          in deleteRouter b (fold closeTransport transportsToClose h))"

section \<open>JavaScript numbers\<close>

text \<open>
  The controller computes with JavaScript numbers read from parsed messages and from the
  configuration. A number is a finite value, an infinity or \<open>NaN\<close>; a field of a parsed
  object may be absent (\<open>undefined\<close>). Finite values are rationals here: rounding and
  the sign of zero are not represented.
\<close>

datatype jsnum = Num rat | PosInf | NegInf | NaN

datatype jsval = Undefined | Number jsnum

fun js_neg :: "jsnum \<Rightarrow> jsnum" where
  "js_neg (Num a) = Num (- a)"
| "js_neg PosInf = NegInf"
| "js_neg NegInf = PosInf"
| "js_neg NaN = NaN"

fun js_add :: "jsnum \<Rightarrow> jsnum \<Rightarrow> jsnum" where
  "js_add NaN _ = NaN"
| "js_add _ NaN = NaN"
| "js_add (Num a) (Num b) = Num (a + b)"
| "js_add PosInf NegInf = NaN"
| "js_add NegInf PosInf = NaN"
| "js_add PosInf _ = PosInf"
| "js_add _ PosInf = PosInf"
| "js_add NegInf _ = NegInf"
| "js_add _ NegInf = NegInf"

definition js_sub :: "jsnum \<Rightarrow> jsnum \<Rightarrow> jsnum" where
  "js_sub a b = js_add a (js_neg b)"

fun js_mul :: "jsnum \<Rightarrow> jsnum \<Rightarrow> jsnum" where
  "js_mul NaN _ = NaN"
| "js_mul _ NaN = NaN"
| "js_mul (Num a) (Num b) = Num (a * b)"
| "js_mul (Num a) PosInf = (if a = 0 then NaN else if 0 < a then PosInf else NegInf)"
| "js_mul (Num a) NegInf = (if a = 0 then NaN else if 0 < a then NegInf else PosInf)"
| "js_mul PosInf (Num b) = (if b = 0 then NaN else if 0 < b then PosInf else NegInf)"
| "js_mul NegInf (Num b) = (if b = 0 then NaN else if 0 < b then NegInf else PosInf)"
| "js_mul PosInf PosInf = PosInf"
| "js_mul NegInf NegInf = PosInf"
| "js_mul PosInf NegInf = NegInf"
| "js_mul NegInf PosInf = NegInf"

fun js_div :: "jsnum \<Rightarrow> jsnum \<Rightarrow> jsnum" where
  "js_div NaN _ = NaN"
| "js_div _ NaN = NaN"
| "js_div (Num a) (Num b) =
     (if b = 0 then (if a = 0 then NaN else if 0 < a then PosInf else NegInf)
      else Num (a / b))"
| "js_div (Num a) _ = Num 0"
| "js_div PosInf (Num b) = (if b < 0 then NegInf else PosInf)"
| "js_div NegInf (Num b) = (if b < 0 then PosInf else NegInf)"
| "js_div _ _ = NaN"

fun js_ceil :: "jsnum \<Rightarrow> jsnum" where
  "js_ceil (Num a) = Num (of_int \<lceil>a\<rceil>)"
| "js_ceil x = x"

fun js_lt :: "jsnum \<Rightarrow> jsnum \<Rightarrow> bool" where
  "js_lt NaN _ = False"
| "js_lt _ NaN = False"
| "js_lt (Num a) (Num b) = (a < b)"
| "js_lt NegInf NegInf = False"
| "js_lt NegInf _ = True"
| "js_lt _ NegInf = False"
| "js_lt PosInf _ = False"
| "js_lt _ PosInf = True"

definition js_le :: "jsnum \<Rightarrow> jsnum \<Rightarrow> bool" where
  "js_le a b = (a \<noteq> NaN \<and> b \<noteq> NaN \<and> (js_lt a b \<or> a = b))"

definition js_min :: "jsnum \<Rightarrow> jsnum \<Rightarrow> jsnum" where
  "js_min a b = (if a = NaN \<or> b = NaN then NaN else if js_lt b a then b else a)"

definition js_max :: "jsnum \<Rightarrow> jsnum \<Rightarrow> jsnum" where
  "js_max a b = (if a = NaN \<or> b = NaN then NaN else if js_lt a b then b else a)"

text \<open>\<open>x || 0\<close> on a field: \<open>undefined\<close>, \<open>NaN\<close> and \<open>0\<close> are falsy.\<close>

fun or0 :: "jsval \<Rightarrow> jsnum" where
  "or0 Undefined = Num 0"
| "or0 (Number NaN) = Num 0"
| "or0 (Number n) = n"

text \<open>A field used as an operand without a default: \<open>undefined\<close> converts to \<open>NaN\<close>.\<close>

fun to_num :: "jsval \<Rightarrow> jsnum" where
  "to_num Undefined = NaN"
| "to_num (Number n) = n"

text \<open>
  \<open>xs.slice(0, n)\<close>: the end is converted to an integer (\<open>NaN\<close> to 0, truncation toward
  zero), a negative end counts from the end of the array, and the result is clamped.
\<close>

fun js_slice0 :: "jsnum \<Rightarrow> 'a list \<Rightarrow> 'a list" where
  "js_slice0 NaN xs = []"
| "js_slice0 NegInf xs = []"
| "js_slice0 PosInf xs = xs"
| "js_slice0 (Num r) xs =
     (let k = (if 0 \<le> r then \<lfloor>r\<rfloor> else \<lceil>r\<rceil>)
      in if k < 0 then take (nat (int (length xs) + k)) xs else take (nat k) xs)"

section \<open>Capacity controller (ScalingOrchestrator.js)\<close>

text \<open>
  The state of the orchestrator object (constructor, lines 73-79), together with what the
  model needs of its surroundings: \<open>clock\<close> is the value \<open>Date.now()\<close> returns, and
  \<open>calls\<close> is the sequence of requests sent to the cloud provider, the shared store and
  the message bus, each with the clock reading at which it was sent. Several of the
  methods the source calls on \<open>this\<close> are defined nowhere in the repository
  (\<open>scaleECSService\<close>, \<open>scaleKubernetesDeployment\<close>, \<open>terminateECSInstances\<close>,
  \<open>getAggregatedMetrics\<close>, \<open>getActiveBroadcasts\<close>, \<open>getUpstreamServer\<close>,
  \<open>configureRelay\<close>, \<open>updateRoutingRules\<close>, ...): each appears as a logged call, or
  its result as a parameter. No method of the source writes to \<open>this.instances\<close>, so the
  model leaves it as it is; what a scaling action does to the fleet is the logged call.
  Awaited reads of the shared store are taken to return at once, and a request that the
  provider rejects (an exception in the source, abandoning the action) is not modelled.

  The methods are \<open>async\<close>: a call runs until it awaits a request, and other handlers run
  before the request returns. A method is given as a function that takes the call from
  its start to its end with nothing in between (\<open>scaleUp\<close>, \<open>scaleDown\<close>,
  \<open>addRelayNode\<close>, ...); the two scaling actions are given also in the pieces between
  their awaits (\<open>scaleUpBegin\<close>, \<open>scaleDownBegin\<close>, \<open>resume\<close>), which \<open>handleEvent\<close>
  interleaves with the other events.
\<close>

record scaling_config =
  minInstances :: int
  maxInstances :: int
  targetCPU :: rat
  targetMemory :: rat
  targetListenersPerInstance :: int
  scaleDownThreshold :: rat
  cooldownPeriod :: int
  cdnSwitchThreshold :: rat
  relayActivationThreshold :: rat
  regions :: "string list"
  useKubernetes :: bool

record instance_info =
  endpoint :: string
  unhealthyCount :: nat

record snapshot =
  cpu :: jsval
  memory :: jsval
  listenerCount :: jsval
  bandwidth :: jsval
  timestamp :: int

record relay_node =
  rn_endpoint :: string
  rn_broadcastId :: string
  rn_region :: "string option"
  rn_createdAt :: int
  rn_listenerCount :: nat

record distribution =
  d_id :: string
  d_domain :: string
  d_createdAt :: int

record scaling_event =
  ev_type :: string
  ev_timestamp :: int
  ev_instances :: jsnum
  ev_broadcastId :: string
  ev_targetLoad :: "jsnum option"

record aggregated =
  totalInstances :: nat
  totalRelays :: nat
  totalListeners :: jsnum
  totalBandwidth :: jsnum
  averageCPU :: jsnum
  averageMemory :: jsnum

text \<open>
  The requests, with the arguments the source passes. A pod is named
  \<open>relay-<broadcastId>-<Date.now()>\<close>: the name is the pair of the two.
\<close>

datatype cloud_call =
    ScaleKubernetesDeployment jsnum
  | ScaleECSService jsnum
  | TerminateECSInstances "string list"
  | MarkDraining string
  | PublishDrain string
  | CreateNamespacedPod "string \<times> int" "string option" string
  | WaitForPodReady "string \<times> int"
  | ReadNamespacedPod "string \<times> int"
  | RegisterTaskDefinition string "string option" string
  | RunTask "string option"
  | WaitForTaskRunning string
  | DescribeTasks string
  | ConfigureRelay string string
  | UpdateRoutingRules string string
  | PublishRelayAdded string string string "string option"
  | CreateDistribution string int
  | UpdateCDNOrigin string string
  | EnableHLSPackaging string string
  | UpdateDNSForCDN string string
  | PublishCdnActivated string string

datatype emission = Scaled jsnum jsnum | Metrics aggregated

record orchestrator =
  instances :: "(string \<times> instance_info) list"
  relayNodes :: "(string \<times> relay_node) list"
  cdnDistributions :: "(string \<times> distribution) list"
  metrics :: "(string \<times> snapshot) list"
  scalingHistory :: "scaling_event list"
  lastScaleAction :: int
  clock :: int
  calls :: "(int \<times> cloud_call) list"
  emitted :: "emission list"
  metricsStore :: "aggregated list"
  relaysLaunched :: nat
  distributionsCreated :: nat

text \<open>
  The surroundings as parameters: how long an awaited request takes, how late the 5 s
  timer of the drain loop fires, the metrics messages handled while the timer started at
  a given time runs (each with the time at which it is handled), the
  presence hash of a broadcast in the shared store (user and region, in the order of the
  reply, read by \<open>getListenerRegionDistribution\<close>), the results of \<open>getUpstreamServer\<close>
  and \<open>getMediaServerOrigin\<close>, and the identity (id and address, id and domain) the
  provider gives the n-th relay instance and the n-th distribution it creates.
\<close>

record env =
  latency :: "int \<Rightarrow> nat"
  lateness :: "int \<Rightarrow> nat"
  incoming :: "int \<Rightarrow> (int \<times> string \<times> snapshot) list"
  presence :: "string \<Rightarrow> (string \<times> string option) list"
  upstreamServer :: "string \<Rightarrow> string"
  mediaServerOrigin :: "string \<Rightarrow> string"
  relay_identity :: "nat \<Rightarrow> string \<times> string"
  distribution_identity :: "nat \<Rightarrow> string \<times> string"

text \<open>
  An awaited request: \<open>send\<close> logs it at the current time; \<open>arrive\<close> is the moment the
  caller goes on, no earlier than the request's latency after it was sent at \<open>t\<close>.
  \<open>external\<close> is the two with nothing in between.
\<close>

definition send :: "cloud_call \<Rightarrow> orchestrator \<Rightarrow> orchestrator" where
  "send c st = st\<lparr>calls := calls st @ [(clock st, c)]\<rparr>"

definition arrive :: "env \<Rightarrow> int \<Rightarrow> orchestrator \<Rightarrow> orchestrator" where
  "arrive e t st = st\<lparr>clock := max (clock st) (t + int (latency e t))\<rparr>"

definition external :: "env \<Rightarrow> cloud_call \<Rightarrow> orchestrator \<Rightarrow> orchestrator" where
  "external e c st = arrive e (clock st) (send c st)"

text \<open>
  \<open>processMetrics\<close> (lines 126-146): the snapshot of an instance replaces the previous
  one and is stamped with the current time. The push to the monitoring service and the
  anomaly handlers (not in the repository) are left out.
\<close>

definition processMetrics :: "string \<Rightarrow> snapshot \<Rightarrow> orchestrator \<Rightarrow> orchestrator" where
  "processMetrics instanceId m st =
     st\<lparr>metrics := AList.update instanceId (m\<lparr>timestamp := clock st\<rparr>) (metrics st)\<rparr>"

text \<open>
  The timer callback of \<open>startMetricsCollection\<close> (lines 727-758). The loop runs over
  every value of \<open>this.metrics\<close>; the \<open>timestamp\<close> of a snapshot is not read.
\<close>

definition aggregate :: "orchestrator \<Rightarrow> aggregated" where
  "aggregate st =
     (let vals = map snd (metrics st);
          listeners = fold (\<lambda>m acc. js_add acc (or0 (listenerCount m))) vals (Num 0);
          bandw = fold (\<lambda>m acc. js_add acc (or0 (bandwidth m))) vals (Num 0);
          cpuSum = fold (\<lambda>m acc. js_add acc (or0 (cpu m))) vals (Num 0);
          memorySum = fold (\<lambda>m acc. js_add acc (or0 (memory m))) vals (Num 0);
          size = length (metrics st)
      in \<lparr>totalInstances = length (instances st),
          totalRelays = length (relayNodes st),
          totalListeners = listeners,
          totalBandwidth = bandw,
          averageCPU = (if 0 < size then js_div cpuSum (Num (of_nat size)) else Num 0),
          averageMemory = (if 0 < size then js_div memorySum (Num (of_nat size)) else Num 0)\<rparr>)"

definition metricsTick :: "orchestrator \<Rightarrow> orchestrator" where
  "metricsTick st =
     st\<lparr>metricsStore := metricsStore st @ [aggregate st],
        emitted := emitted st @ [Metrics (aggregate st)]\<rparr>"

text \<open>
  \<open>drainInstances\<close> (lines 563-601). Each instance is marked and notified, then the loop
  polls: while less than 60000 ms have passed since \<open>startTime\<close>, return if no listed
  instance has a snapshot with a positive listener count, else sleep on a 5000 ms timer.
  A timer fires no earlier than asked; the metrics messages handled while it runs are
  in the store, stamped with the time of their handling, when the sleep ends.
\<close>

definition allDrained :: "string list \<Rightarrow> orchestrator \<Rightarrow> bool" where
  "allDrained instanceIds st =
     list_all (\<lambda>i. case map_of (metrics st) i of
                      None \<Rightarrow> True
                    | Some m \<Rightarrow> \<not> js_lt (Num 0) (to_num (listenerCount m))) instanceIds"

definition sleep5000 :: "env \<Rightarrow> orchestrator \<Rightarrow> orchestrator" where
  "sleep5000 e st =
     (let wake = clock st + 5000 + int (lateness e (clock st))
      in (fold (\<lambda>(t, i, m) s. processMetrics i m (s\<lparr>clock := t\<rparr>)) (incoming e (clock st)) st)
           \<lparr>clock := wake\<rparr>)"

datatype drain_outcome = Drained | DrainTimeout

function drainLoop ::
  "env \<Rightarrow> string list \<Rightarrow> int \<Rightarrow> orchestrator \<Rightarrow> drain_outcome \<times> orchestrator" where
  "drainLoop e instanceIds startTime st =
     (if clock st - startTime < 60000 then
        (if allDrained instanceIds st then (Drained, st)
         else drainLoop e instanceIds startTime (sleep5000 e st))
      else (DrainTimeout, st))"
  by pat_completeness auto
termination
  by (relation "measure (\<lambda>(e, ids, startTime, st). nat (60000 - (clock st - startTime)))")
     (auto simp: sleep5000_def Let_def)

declare drainLoop.simps [simp del]

definition markDraining :: "env \<Rightarrow> string list \<Rightarrow> orchestrator \<Rightarrow> orchestrator" where
  "markDraining e instanceIds st =
     fold (\<lambda>i s. external e (PublishDrain i) (external e (MarkDraining i) s)) instanceIds st"

definition drainInstances ::
  "env \<Rightarrow> string list \<Rightarrow> orchestrator \<Rightarrow> drain_outcome \<times> orchestrator" where
  "drainInstances e instanceIds st =
     (let st1 = markDraining e instanceIds st
      in drainLoop e instanceIds (clock st1) st1)"

text \<open>
  \<open>scaleUp\<close> (lines 167-213). \<open>targetLoad\<close> is any number: the timer passes
  \<open>totalListeners * 1.5\<close>.
\<close>

definition scaleUp ::
  "scaling_config \<Rightarrow> env \<Rightarrow> string \<Rightarrow> jsnum \<Rightarrow> orchestrator \<Rightarrow> orchestrator" where
  "scaleUp cfg e broadcastId targetLoad st =
     (if clock st - lastScaleAction st < cooldownPeriod cfg then st
      else
        let currentInstances = Num (of_nat (length (instances st)));
            instancesNeeded =
              js_ceil (js_div targetLoad (Num (of_int (targetListenersPerInstance cfg))));
            instancesToAdd =
              js_min (js_sub instancesNeeded currentInstances)
                     (js_sub (Num (of_int (maxInstances cfg))) currentInstances)
        in if js_le instancesToAdd (Num 0) then st
           else
             let st1 = external e (if useKubernetes cfg
                                   then ScaleKubernetesDeployment instancesToAdd
                                   else ScaleECSService instancesToAdd) st
             in st1\<lparr>lastScaleAction := clock st1,
                    scalingHistory := scalingHistory st1 @
                      [\<lparr>ev_type = ''scale-up'', ev_timestamp = clock st1,
                        ev_instances = instancesToAdd, ev_broadcastId = broadcastId,
                        ev_targetLoad = Some targetLoad\<rparr>],
                    emitted := emitted st1 @
                      [Scaled instancesToAdd (js_add currentInstances instancesToAdd)]\<rparr>)"

text \<open>
  The comparator of the sort at lines 242-246 is the difference of the two listener
  counts, each \<open>|| 0\<close>; a \<open>NaN\<close> difference counts as equal. \<open>Array.prototype.sort\<close> is
  stable: insertion from the right, an element moving behind those that compare smaller.
\<close>

definition loadOf :: "orchestrator \<Rightarrow> string \<Rightarrow> jsnum" where
  "loadOf st i = (case map_of (metrics st) i of None \<Rightarrow> Num 0 | Some m \<Rightarrow> or0 (listenerCount m))"

fun insertByLoad ::
  "orchestrator \<Rightarrow> string \<times> instance_info \<Rightarrow> (string \<times> instance_info) list \<Rightarrow>
   (string \<times> instance_info) list" where
  "insertByLoad st a [] = [a]"
| "insertByLoad st a (b # bs) =
     (if js_lt (Num 0) (js_sub (loadOf st (fst a)) (loadOf st (fst b)))
      then b # insertByLoad st a bs else a # b # bs)"

definition sortByLoad ::
  "orchestrator \<Rightarrow> (string \<times> instance_info) list \<Rightarrow> (string \<times> instance_info) list" where
  "sortByLoad st xs = foldr (insertByLoad st) xs []"

text \<open>\<open>scaleDown\<close> (lines 215-269).\<close>

definition scaleDown ::
  "scaling_config \<Rightarrow> env \<Rightarrow> string \<Rightarrow> orchestrator \<Rightarrow> orchestrator" where
  "scaleDown cfg e broadcastId st =
     (if clock st - lastScaleAction st < cooldownPeriod cfg then st
      else
        let currentInstances = Num (of_nat (length (instances st)));
            totalLoad = fold (\<lambda>m sum. js_add sum (to_num (listenerCount m)))
                             (map snd (metrics st)) (Num 0);
            instancesNeeded =
              js_ceil (js_div totalLoad (Num (of_int (targetListenersPerInstance cfg))));
            instancesToRemove =
              js_max (js_sub currentInstances instancesNeeded)
                     (js_sub currentInstances (Num (of_int (minInstances cfg))))
        in if js_le instancesToRemove (Num 0) then st
           else
             let instancesToTerminate =
                   map fst (js_slice0 instancesToRemove (sortByLoad st (instances st)));
                 st1 = snd (drainInstances e instancesToTerminate st);
                 st2 = external e (if useKubernetes cfg
                                   then ScaleKubernetesDeployment (js_neg instancesToRemove)
                                   else TerminateECSInstances instancesToTerminate) st1
             in st2\<lparr>lastScaleAction := clock st2,
                    scalingHistory := scalingHistory st2 @
                      [\<lparr>ev_type = ''scale-down'', ev_timestamp = clock st2,
                        ev_instances = instancesToRemove, ev_broadcastId = broadcastId,
                        ev_targetLoad = None\<rparr>]\<rparr>)"

text \<open>
  \<open>Object.entries\<close> lists the keys that are array indices (the decimal numerals of the
  integers from 0 to 4294967294, without leading zeros) first, in ascending order, and
  then the other keys in the order of their insertion.
\<close>

definition isDigit :: "char \<Rightarrow> bool" where
  "isDigit c = (48 \<le> (of_char c :: nat) \<and> (of_char c :: nat) \<le> 57)"

definition decimal :: "string \<Rightarrow> nat" where
  "decimal s = fold (\<lambda>c n. 10 * n + (of_char c - 48)) s 0"

definition isArrayIndex :: "string \<Rightarrow> bool" where
  "isArrayIndex s =
     (s \<noteq> [] \<and> list_all isDigit s \<and> (length s = 1 \<or> hd s \<noteq> CHR ''0'') \<and>
      decimal s \<le> 4294967294)"

definition objectEntries :: "(string \<times> 'v) list \<Rightarrow> (string \<times> 'v) list" where
  "objectEntries kvs =
     sort_key (\<lambda>(k, v). decimal k) (filter (\<lambda>(k, v). isArrayIndex k) kvs) @
     filter (\<lambda>(k, v). \<not> isArrayIndex k) kvs"

text \<open>
  \<open>getListenerRegionDistribution\<close> (lines 603-614): listeners per region, a missing or
  empty region counted as \<open>unknown\<close>. A region is inserted into the object when its first
  listener is met.
\<close>

definition getListenerRegionDistribution :: "env \<Rightarrow> string \<Rightarrow> (string \<times> nat) list" where
  "getListenerRegionDistribution e broadcastId =
     fold (\<lambda>(userId, reg) distribution.
             let region = (case reg of None \<Rightarrow> ''unknown''
                                     | Some r \<Rightarrow> if r = [] then ''unknown'' else r)
             in AList.update region
                  ((case map_of distribution region of None \<Rightarrow> 0 | Some c \<Rightarrow> c) + 1) distribution)
          (objectEntries (presence e broadcastId)) []"

text \<open>
  \<open>selectOptimalRegion\<close> (lines 616-629): starts from the first configured region
  (\<open>undefined\<close>, here \<open>None\<close>, when none is configured) and moves to each configured
  region with a strictly larger count. The relays already registered are not consulted.
\<close>

definition selectOptimalRegion :: "scaling_config \<Rightarrow> (string \<times> nat) list \<Rightarrow> string option" where
  "selectOptimalRegion cfg distribution =
     snd (fold (\<lambda>(region, count) (maxListeners, optimalRegion).
                  if maxListeners < count \<and> region \<in> set (regions cfg)
                  then (count, Some region) else (maxListeners, optimalRegion))
               (objectEntries distribution)
               (0, case regions cfg of [] \<Rightarrow> None | r # _ \<Rightarrow> Some r))"

text \<open>\<open>selectInstanceType\<close> (lines 631-636).\<close>

definition selectInstanceType :: "jsnum \<Rightarrow> string" where
  "selectInstanceType load =
     (if js_lt load (Num 100) then ''t3.medium''
      else if js_lt load (Num 500) then ''t3.large''
      else if js_lt load (Num 1000) then ''t3.xlarge''
      else ''t3.2xlarge'')"

text \<open>
  \<open>launchRelayInstance\<close> (lines 349-471): on Kubernetes a pod is created, waited for and
  read; otherwise a task definition is registered and a task is run, waited for and
  described. The result is the id and the address the provider returned. The
  \<open>instanceType\<close> of the configuration is not used.
\<close>

record relay_config =
  rc_region :: "string option"
  rc_instanceType :: string
  rc_broadcastId :: string
  rc_upstream :: string

definition launchRelayInstance ::
  "scaling_config \<Rightarrow> env \<Rightarrow> relay_config \<Rightarrow> orchestrator \<Rightarrow> (string \<times> string) \<times> orchestrator" where
  "launchRelayInstance cfg e config st =
     (if useKubernetes cfg then
        let name = (rc_broadcastId config, clock st);
            st1 = external e (CreateNamespacedPod name (rc_region config) (rc_upstream config)) st;
            st2 = external e (WaitForPodReady name) st1;
            st3 = external e (ReadNamespacedPod name) st2
        in (relay_identity e (relaysLaunched st),
            st3\<lparr>relaysLaunched := Suc (relaysLaunched st)\<rparr>)
      else
        let st1 = external e (RegisterTaskDefinition (rc_broadcastId config) (rc_region config)
                                (rc_upstream config)) st;
            st2 = external e (RunTask (rc_region config)) st1;
            taskArn = fst (relay_identity e (relaysLaunched st));
            st3 = external e (WaitForTaskRunning taskArn) st2;
            st4 = external e (DescribeTasks taskArn) st3
        in (relay_identity e (relaysLaunched st),
            st4\<lparr>relaysLaunched := Suc (relaysLaunched st)\<rparr>))"

text \<open>
  \<open>addRelayNode\<close> (lines 271-315): chooses the region, launches one relay instance,
  configures it, stores it in \<open>this.relayNodes\<close> under the id the provider returned,
  updates routing and publishes \<open>relay:added\<close>. The result is the launched instance's id.
\<close>

definition addRelayNode ::
  "scaling_config \<Rightarrow> env \<Rightarrow> string \<Rightarrow> jsnum \<Rightarrow> orchestrator \<Rightarrow> string \<times> orchestrator" where
  "addRelayNode cfg e broadcastId currentLoad st =
     (let listenerRegions = getListenerRegionDistribution e broadcastId;
          targetRegion = selectOptimalRegion cfg listenerRegions;
          relayConfig = \<lparr>rc_region = targetRegion,
                         rc_instanceType = selectInstanceType currentLoad,
                         rc_broadcastId = broadcastId,
                         rc_upstream = upstreamServer e broadcastId\<rparr>;
          ((rid, ep), st1) = launchRelayInstance cfg e relayConfig st;
          st2 = external e (ConfigureRelay rid broadcastId) st1;
          st3 = st2\<lparr>relayNodes := AList.update rid
                        \<lparr>rn_endpoint = ep, rn_broadcastId = broadcastId,
                         rn_region = targetRegion, rn_createdAt = clock st2,
                         rn_listenerCount = 0\<rparr> (relayNodes st2)\<rparr>;
          st4 = external e (UpdateRoutingRules broadcastId rid) st3
      in (rid, external e (PublishRelayAdded broadcastId rid ep targetRegion) st4))"

text \<open>
  \<open>createCDNDistribution\<close> (lines 473-561) and \<open>activateCDN\<close> (lines 317-347): the
  distribution of the broadcast is looked up and created only when there is none; the
  origin is set on the distribution, by its id, and the domain of the distribution is
  what the DNS update and the notification carry.
\<close>

definition createCDNDistribution ::
  "env \<Rightarrow> string \<Rightarrow> orchestrator \<Rightarrow> distribution \<times> orchestrator" where
  "createCDNDistribution e broadcastId st =
     (let st1 = external e (CreateDistribution broadcastId (clock st)) st;
          (did, dom) = distribution_identity e (distributionsCreated st1)
      in (\<lparr>d_id = did, d_domain = dom, d_createdAt = clock st1\<rparr>,
          st1\<lparr>distributionsCreated := Suc (distributionsCreated st1)\<rparr>))"

definition activateCDN :: "env \<Rightarrow> string \<Rightarrow> orchestrator \<Rightarrow> distribution \<times> orchestrator" where
  "activateCDN e broadcastId st =
     (let (distribution, st1) =
            (case map_of (cdnDistributions st) broadcastId of
               Some d \<Rightarrow> (d, st)
             | None \<Rightarrow>
                 let (d, s1) = createCDNDistribution e broadcastId st
                 in (d, s1\<lparr>cdnDistributions := AList.update broadcastId d (cdnDistributions s1)\<rparr>));
          origin = mediaServerOrigin e broadcastId;
          st2 = external e (UpdateCDNOrigin (d_id distribution) origin) st1;
          st3 = external e (EnableHLSPackaging broadcastId (d_id distribution)) st2;
          st4 = external e (UpdateDNSForCDN broadcastId (d_domain distribution)) st3
      in (distribution,
          external e (PublishCdnActivated broadcastId (d_domain distribution)) st4))"

text \<open>\<open>handleScalingRequest\<close> (lines 148-165), the requests arriving on the message bus.\<close>

datatype scaling_request =
    ScaleUpRequest string jsnum
  | ScaleDownRequest string
  | AddRelayRequest string jsnum
  | ActivateCdnRequest string

fun handleScalingRequest ::
  "scaling_config \<Rightarrow> env \<Rightarrow> scaling_request \<Rightarrow> orchestrator \<Rightarrow> orchestrator" where
  "handleScalingRequest cfg e (ScaleUpRequest b targetLoad) st = scaleUp cfg e b targetLoad st"
| "handleScalingRequest cfg e (ScaleDownRequest b) st = scaleDown cfg e b st"
| "handleScalingRequest cfg e (AddRelayRequest b currentLoad) st =
     snd (addRelayNode cfg e b currentLoad st)"
| "handleScalingRequest cfg e (ActivateCdnRequest b) st = snd (activateCDN e b st)"

text \<open>
  The timer callback of \<open>startAutoScaling\<close> (lines 762-788). The results of
  \<open>getAggregatedMetrics\<close> and \<open>getActiveBroadcasts\<close>, neither in the repository, are the
  parameters \<open>m\<close> and \<open>broadcasts\<close>. \<open>autoScalingDecision\<close> is the test of lines 766-772,
  \<open>broadcastStep\<close> the body of the loop over the broadcasts.
\<close>

record active_broadcast =
  ab_id :: string
  ab_listenerCount :: jsnum
  ab_cdnActivated :: bool
  ab_relaysActivated :: bool

definition autoScalingDecision :: "scaling_config \<Rightarrow> aggregated \<Rightarrow> scaling_request option" where
  "autoScalingDecision cfg m =
     (if js_lt (Num (targetCPU cfg)) (averageCPU m) \<or>
         js_lt (Num (targetMemory cfg)) (averageMemory m)
      then Some (ScaleUpRequest ''auto'' (js_mul (totalListeners m) (Num (3 / 2))))
      else if js_lt (averageCPU m) (Num (scaleDownThreshold cfg)) \<and>
              js_lt (averageMemory m) (Num (scaleDownThreshold cfg))
      then Some (ScaleDownRequest ''auto'')
      else None)"

definition broadcastStep ::
  "scaling_config \<Rightarrow> env \<Rightarrow> active_broadcast \<Rightarrow> orchestrator \<Rightarrow> orchestrator" where
  "broadcastStep cfg e b st =
     (let st1 = (if js_le (Num (cdnSwitchThreshold cfg)) (ab_listenerCount b) \<and> \<not> ab_cdnActivated b
                 then snd (activateCDN e (ab_id b) st) else st)
      in if js_le (Num (relayActivationThreshold cfg)) (ab_listenerCount b) \<and> \<not> ab_relaysActivated b
         then snd (addRelayNode cfg e (ab_id b) (ab_listenerCount b) st1) else st1)"

text \<open>
  The victims of a scale-down (lines 224-248): how many instances, and which, as
  \<open>scaleDown\<close> computes them.
\<close>

definition instancesToRemove :: "scaling_config \<Rightarrow> orchestrator \<Rightarrow> jsnum" where
  "instancesToRemove cfg st =
     (let currentInstances = Num (of_nat (length (instances st)));
          totalLoad = fold (\<lambda>m sum. js_add sum (to_num (listenerCount m)))
                           (map snd (metrics st)) (Num 0);
          instancesNeeded =
            js_ceil (js_div totalLoad (Num (of_int (targetListenersPerInstance cfg))))
      in js_max (js_sub currentInstances instancesNeeded)
                (js_sub currentInstances (Num (of_int (minInstances cfg)))))"

definition instancesToTerminate :: "scaling_config \<Rightarrow> orchestrator \<Rightarrow> string list" where
  "instancesToTerminate cfg st =
     map fst (js_slice0 (instancesToRemove cfg st) (sortByLoad st (instances st)))"

text \<open>
  A scaling action in flight. \<open>scaleUp\<close> tests the cooldown (line 169), computes, sends
  its request and awaits it (lines 189-193); \<open>lastScaleAction\<close> is written when the
  request has returned (line 196). \<open>scaleDown\<close> tests the cooldown (line 217), computes
  the victims and awaits \<open>drainInstances\<close> (line 251), then sends the termination request
  and awaits it (lines 254-258), and writes \<open>lastScaleAction\<close> after that (line 260).
  A frame holds what the suspended call goes on with: its local variables, the time at
  which the awaited request was sent, and the broadcasts the timer callback has still to
  look at when the call was made by the timer. The drain is resumed as a whole, the metrics
  messages that arrive during it being those of \<open>incoming\<close>.
\<close>

datatype pending =
    AwaitScale string jsnum jsnum jsnum
  | AwaitDrain string jsnum "string list"
  | AwaitTerminate string jsnum

record frame =
  f_pending :: pending
  f_sent :: int
  f_then :: "active_broadcast list"

definition scaleUpBegin ::
  "scaling_config \<Rightarrow> string \<Rightarrow> jsnum \<Rightarrow> orchestrator \<Rightarrow> (pending \<times> orchestrator) option" where
  "scaleUpBegin cfg broadcastId targetLoad st =
     (if clock st - lastScaleAction st < cooldownPeriod cfg then None
      else
        let currentInstances = Num (of_nat (length (instances st)));
            instancesNeeded =
              js_ceil (js_div targetLoad (Num (of_int (targetListenersPerInstance cfg))));
            instancesToAdd =
              js_min (js_sub instancesNeeded currentInstances)
                     (js_sub (Num (of_int (maxInstances cfg))) currentInstances)
        in if js_le instancesToAdd (Num 0) then None
           else Some (AwaitScale broadcastId targetLoad currentInstances instancesToAdd,
                      send (if useKubernetes cfg
                            then ScaleKubernetesDeployment instancesToAdd
                            else ScaleECSService instancesToAdd) st))"

definition scaleDownBegin ::
  "scaling_config \<Rightarrow> string \<Rightarrow> orchestrator \<Rightarrow> (pending \<times> orchestrator) option" where
  "scaleDownBegin cfg broadcastId st =
     (if clock st - lastScaleAction st < cooldownPeriod cfg then None
      else if js_le (instancesToRemove cfg st) (Num 0) then None
      else Some (AwaitDrain broadcastId (instancesToRemove cfg st) (instancesToTerminate cfg st),
                 st))"

definition resume ::
  "scaling_config \<Rightarrow> env \<Rightarrow> frame \<Rightarrow> orchestrator \<Rightarrow> frame option \<times> orchestrator" where
  "resume cfg e fr st =
     (case f_pending fr of
        AwaitScale broadcastId targetLoad currentInstances toAdd \<Rightarrow>
          let st1 = arrive e (f_sent fr) st;
              st2 = st1\<lparr>lastScaleAction := clock st1,
                        scalingHistory := scalingHistory st1 @
                          [\<lparr>ev_type = ''scale-up'', ev_timestamp = clock st1,
                            ev_instances = toAdd, ev_broadcastId = broadcastId,
                            ev_targetLoad = Some targetLoad\<rparr>],
                        emitted := emitted st1 @
                          [Scaled toAdd (js_add currentInstances toAdd)]\<rparr>
          in (None, fold (broadcastStep cfg e) (f_then fr) st2)
      | AwaitDrain broadcastId toRemove toTerminate \<Rightarrow>
          let st1 = snd (drainInstances e toTerminate st)
          in (Some (fr\<lparr>f_pending := AwaitTerminate broadcastId toRemove,
                       f_sent := clock st1\<rparr>),
              send (if useKubernetes cfg
                    then ScaleKubernetesDeployment (js_neg toRemove)
                    else TerminateECSInstances toTerminate) st1)
      | AwaitTerminate broadcastId toRemove \<Rightarrow>
          let st1 = arrive e (f_sent fr) st;
              st2 = st1\<lparr>lastScaleAction := clock st1,
                        scalingHistory := scalingHistory st1 @
                          [\<lparr>ev_type = ''scale-down'', ev_timestamp = clock st1,
                            ev_instances = toRemove, ev_broadcastId = broadcastId,
                            ev_targetLoad = None\<rparr>]\<rparr>
          in (None, fold (broadcastStep cfg e) (f_then fr) st2))"

text \<open>
  The events that reach the orchestrator: a request from the message bus, dispatched
  without waiting for the one before (lines 86-88); the auto-scaling timer, every 60 s
  whether or not the callback before has ended; the return of the request the \<open>k\<close>-th
  call in flight awaits; a metrics message; the metrics timer; and time passing. A
  scaling call that returns at its guard leaves no frame, and the timer callback goes on
  to its broadcasts at once. The state is the orchestrator with the calls in flight.
\<close>

datatype orchestrator_event =
    Invoke scaling_request
  | AutoScalingTimer aggregated "active_broadcast list"
  | Resume nat
  | MetricsMessage string snapshot
  | MetricsTimer
  | Elapse nat

definition invoke ::
  "scaling_config \<Rightarrow> env \<Rightarrow> scaling_request \<Rightarrow> active_broadcast list \<Rightarrow>
   orchestrator \<times> frame list \<Rightarrow> orchestrator \<times> frame list" where
  "invoke cfg e r broadcasts state =
     (let (st, frames) = state
      in case r of
           ScaleUpRequest b targetLoad \<Rightarrow>
             (case scaleUpBegin cfg b targetLoad st of
                None \<Rightarrow> (fold (broadcastStep cfg e) broadcasts st, frames)
              | Some (p, st1) \<Rightarrow>
                  (st1, frames @ [\<lparr>f_pending = p, f_sent = clock st, f_then = broadcasts\<rparr>]))
         | ScaleDownRequest b \<Rightarrow>
             (case scaleDownBegin cfg b st of
                None \<Rightarrow> (fold (broadcastStep cfg e) broadcasts st, frames)
              | Some (p, st1) \<Rightarrow>
                  (st1, frames @ [\<lparr>f_pending = p, f_sent = clock st, f_then = broadcasts\<rparr>]))
         | _ \<Rightarrow> (fold (broadcastStep cfg e) broadcasts (handleScalingRequest cfg e r st), frames))"

fun handleEvent ::
  "scaling_config \<Rightarrow> env \<Rightarrow> orchestrator_event \<Rightarrow> orchestrator \<times> frame list \<Rightarrow>
   orchestrator \<times> frame list" where
  "handleEvent cfg e (Invoke r) (st, frames) = invoke cfg e r [] (st, frames)"
| "handleEvent cfg e (AutoScalingTimer m broadcasts) (st, frames) =
     (case autoScalingDecision cfg m of
        None \<Rightarrow> (fold (broadcastStep cfg e) broadcasts st, frames)
      | Some r \<Rightarrow> invoke cfg e r broadcasts (st, frames))"
| "handleEvent cfg e (Resume k) (st, frames) =
     (if k < length frames
      then (case resume cfg e (frames ! k) st of
              (None, st1) \<Rightarrow> (st1, take k frames @ drop (Suc k) frames)
            | (Some fr, st1) \<Rightarrow> (st1, frames[k := fr]))
      else (st, frames))"
| "handleEvent cfg e (MetricsMessage i m) (st, frames) = (processMetrics i m st, frames)"
| "handleEvent cfg e MetricsTimer (st, frames) = (metricsTick st, frames)"
| "handleEvent cfg e (Elapse d) (st, frames) = (st\<lparr>clock := clock st + int d\<rparr>, frames)"

definition run ::
  "scaling_config \<Rightarrow> env \<Rightarrow> orchestrator_event list \<Rightarrow> orchestrator \<times> frame list \<Rightarrow>
   orchestrator \<times> frame list" where
  "run cfg e events state = fold (handleEvent cfg e) events state"

text \<open>Times in increasing order, any two of them at least \<open>c\<close> apart.\<close>

fun spaced :: "int \<Rightarrow> int list \<Rightarrow> bool" where
  "spaced c [] = True"
| "spaced c (t # ts) = (list_all (\<lambda>u. c \<le> u - t) ts \<and> spaced c ts)"

text \<open>
  The recorded scaling events are no later than \<open>lastScaleAction\<close> and at least \<open>c\<close>
  apart: the invariant behind the cooldown.
\<close>

definition history_ok :: "int \<Rightarrow> orchestrator \<Rightarrow> bool" where
  "history_ok c st =
     (list_all (\<lambda>t. t \<le> lastScaleAction st) (map ev_timestamp (scalingHistory st)) \<and>
      spaced c (map ev_timestamp (scalingHistory st)))"










text \<open>
  The listeners of a broadcast in a region, counted in the presence hash as
  \<open>getListenerRegionDistribution\<close> reads a region.
\<close>

definition listenersIn :: "env \<Rightarrow> string \<Rightarrow> string \<Rightarrow> nat" where
  "listenersIn e broadcastId region =
     length (filter (\<lambda>(userId, reg).
                       (case reg of None \<Rightarrow> ''unknown''
                                  | Some r \<Rightarrow> if r = [] then ''unknown'' else r) = region)
                    (presence e broadcastId))"

text \<open>The requests \<open>launchRelayInstance\<close> sends for a relay, in their order.\<close>

definition launchCalls ::
  "scaling_config \<Rightarrow> env \<Rightarrow> string \<Rightarrow> string option \<Rightarrow> orchestrator \<Rightarrow> cloud_call list" where
  "launchCalls cfg e broadcastId region st =
     (if useKubernetes cfg
      then [CreateNamespacedPod (broadcastId, clock st) region (upstreamServer e broadcastId),
            WaitForPodReady (broadcastId, clock st), ReadNamespacedPod (broadcastId, clock st)]
      else [RegisterTaskDefinition broadcastId region (upstreamServer e broadcastId),
            RunTask region,
            WaitForTaskRunning (fst (relay_identity e (relaysLaunched st))),
            DescribeTasks (fst (relay_identity e (relaysLaunched st)))])"

text \<open>The requests that provision a relay instance: creating a pod, running a task.\<close>

fun provisions :: "cloud_call \<Rightarrow> bool" where
  "provisions (CreateNamespacedPod name region upstream) = True"
| "provisions (RunTask region) = True"
| "provisions c = False"

section \<open>Session registry (backend/src/signaling/socketGateway.js)\<close>

text \<open>
  The gateway object holds \<open>activeSessions\<close>, a \<open>Map\<close> from socket id to session info.
  The \<open>Broadcast\<close> and \<open>Session\<close> tables, the socket rooms and the presence keys of the
  shared store are outside the object; they are fields of the model's state so that a
  join can be followed through all of them. \<open>sent\<close> is the list of events emitted, each
  with the socket or room it goes to.

  Every awaited operation on the database or on the store may throw. \<open>faults\<close> says, for
  each operation of a handler, whether it throws and with what message; the handler's
  \<open>catch\<close> then takes over, and what the handler did before stays done.
\<close>

datatype role = Host | Listener

record broadcast_row =
  hostId :: nat
  status :: string
  currentListenerCount :: nat
  peakListenerCount :: nat

record session_row =
  s_id :: nat
  s_broadcastId :: string
  s_userId :: nat
  s_role :: role
  s_socketId :: string
  s_status :: string

record session_info =
  si_sessionId :: nat
  si_broadcastId :: string
  si_userId :: nat
  si_role :: role

datatype event =
    ErrorEvent string
  | UserJoined nat role nat
  | Joined nat string role nat
  | UserLeft nat nat

datatype operation =
    BroadcastFind | SessionCreate | SessionCount | ListenerCountFind | ListenerCountUpdate
  | PresenceAdd | UserSocketSet | SessionUpdate | PresenceRemove | UserSocketDel

record gateway =
  broadcastTable :: "(string \<times> broadcast_row) list"
  sessionTable :: "session_row list"
  activeSessions :: "(string \<times> session_info) list"
  rooms :: "(string \<times> string list) list"
  presenceUsers :: "(string \<times> nat list) list"
  userSocket :: "(nat \<times> string) list"
  sent :: "(string \<times> event) list"

definition connectedCount :: "string \<Rightarrow> session_row list \<Rightarrow> nat" where
  "connectedCount b rows =
     length (filter (\<lambda>r. s_broadcastId r = b \<and> s_status r = ''connected'') rows)"

definition sadd :: "'k \<Rightarrow> 'v \<Rightarrow> ('k \<times> 'v list) list \<Rightarrow> ('k \<times> 'v list) list" where
  "sadd k u sets =
     (let members = (case map_of sets k of None \<Rightarrow> [] | Some us \<Rightarrow> us)
      in AList.update k (if u \<in> set members then members else members @ [u]) sets)"

definition srem :: "'k \<Rightarrow> 'v \<Rightarrow> ('k \<times> 'v list) list \<Rightarrow> ('k \<times> 'v list) list" where
  "srem k u sets =
     (case map_of sets k of
        None \<Rightarrow> sets
      | Some us \<Rightarrow> AList.update k (removeAll u us) sets)"

text \<open>
  \<open>updateListenerCount\<close> (broadcastService.js, lines 239-253): finds the broadcast again,
  throws when it is gone, and stores the count, raising the peak when the count exceeds it.
  Within one handler the broadcast found at the start is still there; a broadcast that
  another handler removed in between shows as a throw of \<open>ListenerCountFind\<close>.
\<close>

definition updateListenerCount ::
  "(operation \<Rightarrow> string option) \<Rightarrow> string \<Rightarrow> nat \<Rightarrow> gateway \<Rightarrow> string + gateway" where
  "updateListenerCount faults broadcastId count g =
     (case faults ListenerCountFind of
        Some message \<Rightarrow> Inl message
      | None \<Rightarrow>
         (case map_of (broadcastTable g) broadcastId of
            None \<Rightarrow> Inl ''Broadcast not found''
          | Some broadcast \<Rightarrow>
             (case faults ListenerCountUpdate of
                Some message \<Rightarrow> Inl message
              | None \<Rightarrow>
                  Inr (g\<lparr>broadcastTable := AList.update broadcastId
                           (broadcast\<lparr>currentListenerCount := count,
                              peakListenerCount :=
                                (if peakListenerCount broadcast < count then count
                                 else peakListenerCount broadcast)\<rparr>)
                           (broadcastTable g)\<rparr>))))"

text \<open>
  \<open>handleJoin\<close> (lines 86-170) for the socket \<open>socketId\<close> of the authenticated user
  \<open>userId\<close>. The two early returns emit \<open>error\<close>; after them the role is computed from
  the broadcast's host and a session row is created. The sessions that already exist are
  read only to count them (lines 130-132). An operation that throws leads to the \<open>catch\<close>
  of lines 166-169, which emits \<open>error\<close> with the exception's message (\<open>reject\<close>).
\<close>

definition reject :: "string \<Rightarrow> string \<Rightarrow> gateway \<Rightarrow> gateway" where
  "reject socketId message g = g\<lparr>sent := sent g @ [(socketId, ErrorEvent message)]\<rparr>"

definition handleJoin ::
  "(operation \<Rightarrow> string option) \<Rightarrow> string \<Rightarrow> nat \<Rightarrow> string \<Rightarrow> gateway \<Rightarrow> gateway" where
  "handleJoin faults socketId userId broadcastId g =
     (case faults BroadcastFind of
        Some message \<Rightarrow> reject socketId message g
      | None \<Rightarrow>
     (case map_of (broadcastTable g) broadcastId of
        None \<Rightarrow> reject socketId ''Broadcast not found'' g
      | Some broadcast \<Rightarrow>
          if status broadcast = ''ended''
          then reject socketId ''Broadcast has ended'' g
          else
            let isHost = (hostId broadcast = userId);
                role = (if isHost then Host else Listener)
            in
     (case faults SessionCreate of
        Some message \<Rightarrow> reject socketId message g
      | None \<Rightarrow>
          let session = \<lparr>s_id = length (sessionTable g), s_broadcastId = broadcastId,
                         s_userId = userId, s_role = role, s_socketId = socketId,
                         s_status = ''connected''\<rparr>;
              g1 = g\<lparr>sessionTable := sessionTable g @ [session],
                     activeSessions := AList.update socketId
                       \<lparr>si_sessionId = s_id session, si_broadcastId = broadcastId,
                        si_userId = userId, si_role = role\<rparr> (activeSessions g),
                     rooms := sadd (''broadcast:'' @ broadcastId) socketId (rooms g)\<rparr>
          in
     (case faults SessionCount of
        Some message \<Rightarrow> reject socketId message g1
      | None \<Rightarrow>
          let sessionCount = connectedCount broadcastId (sessionTable g1)
          in
     (case updateListenerCount faults broadcastId sessionCount g1 of
        Inl message \<Rightarrow> reject socketId message g1
      | Inr g2 \<Rightarrow>
     (case faults PresenceAdd of
        Some message \<Rightarrow> reject socketId message g2
      | None \<Rightarrow>
          let g3 = g2\<lparr>presenceUsers := sadd broadcastId userId (presenceUsers g2)\<rparr>
          in
     (case faults UserSocketSet of
        Some message \<Rightarrow> reject socketId message g3
      | None \<Rightarrow>
          g3\<lparr>userSocket := AList.update userId socketId (userSocket g3),
             sent := sent g3 @
               [(''broadcast:'' @ broadcastId, UserJoined userId role sessionCount),
                (socketId, Joined (s_id session) broadcastId role sessionCount)]\<rparr>)))))))"

text \<open>
  \<open>handleLeave\<close> (lines 172-214), also run on disconnect (lines 216-219). Its \<open>catch\<close>
  only logs: an operation that throws ends the handler where it stands.
\<close>

definition handleLeave :: "(operation \<Rightarrow> string option) \<Rightarrow> string \<Rightarrow> gateway \<Rightarrow> gateway" where
  "handleLeave faults socketId g =
     (case map_of (activeSessions g) socketId of
        None \<Rightarrow> g
      | Some info \<Rightarrow>
     (case faults SessionUpdate of
        Some message \<Rightarrow> g
      | None \<Rightarrow>
          let g1 = g\<lparr>sessionTable :=
                      map (\<lambda>r. if s_id r = si_sessionId info
                               then r\<lparr>s_status := ''disconnected''\<rparr> else r) (sessionTable g)\<rparr>
          in
     (case faults PresenceRemove of
        Some message \<Rightarrow> g1
      | None \<Rightarrow>
          let g2 = g1\<lparr>presenceUsers :=
                       srem (si_broadcastId info) (si_userId info) (presenceUsers g1)\<rparr>
          in
     (case faults UserSocketDel of
        Some message \<Rightarrow> g2
      | None \<Rightarrow>
          let g3 = g2\<lparr>userSocket := AList.delete (si_userId info) (userSocket g2),
                      rooms := srem (''broadcast:'' @ si_broadcastId info) socketId (rooms g2)\<rparr>
          in
     (case faults SessionCount of
        Some message \<Rightarrow> g3
      | None \<Rightarrow>
          let sessionCount = connectedCount (si_broadcastId info) (sessionTable g3)
          in
     (case updateListenerCount faults (si_broadcastId info) sessionCount g3 of
        Inl message \<Rightarrow> g3
      | Inr g4 \<Rightarrow>
          g4\<lparr>sent := sent g4 @
                [(''broadcast:'' @ si_broadcastId info, UserLeft (si_userId info) sessionCount)],
             activeSessions := AList.delete socketId (activeSessions g4)\<rparr>))))))"

text \<open>No operation throws.\<close>

definition no_faults :: "operation \<Rightarrow> string option" where
  "no_faults op = None"

text \<open>The connected host-role sessions of a broadcast.\<close>

definition hostSessions :: "string \<Rightarrow> gateway \<Rightarrow> session_row list" where
  "hostSessions b g =
     filter (\<lambda>r. s_broadcastId r = b \<and> s_role r = Host \<and> s_status r = ''connected'')
            (sessionTable g)"

text \<open>Every host-role session belongs to the host of its broadcast.\<close>

definition hostOf :: "gateway \<Rightarrow> string \<Rightarrow> nat option" where
  "hostOf g b = map_option hostId (map_of (broadcastTable g) b)"

definition hostsAreOwners :: "gateway \<Rightarrow> bool" where
  "hostsAreOwners g =
     list_all (\<lambda>r. s_role r = Host \<longrightarrow> hostOf g (s_broadcastId r) = Some (s_userId r))
              (sessionTable g)"

section \<open>Example states\<close>

text \<open>
  A handler with two workers; the same handler after a transport was created for
  broadcast \<open>b1\<close>, one for \<open>b2\<close>, and a producer on the transport of \<open>b2\<close>.
\<close>

definition handler_init :: handler where
  "handler_init =
     \<lparr>workers = [100, 101], routers = [], transports = [], producers = [], consumers = [],
      nextWorkerIndex = 0, engine_next = 0, engine_routers = [], engine_closed = []\<rparr>"

definition handler_two :: handler where
  "handler_two =
     \<lparr>workers = [100, 101],
      routers = [(''b1'', \<lparr>r_id = 0, r_worker = 100\<rparr>), (''b2'', \<lparr>r_id = 2, r_worker = 101\<rparr>)],
      transports = [(1, \<lparr>t_router = 0\<rparr>), (3, \<lparr>t_router = 2\<rparr>)],
      producers = [(4, \<lparr>p_transport = 3, p_router = 2, p_kind = ''audio''\<rparr>)],
      consumers = [], nextWorkerIndex = 0, engine_next = 5, engine_routers = [0, 2],
      engine_closed = []\<rparr>"

text \<open>An engine that finds every stream compatible and has no further objection.\<close>

definition any_caps :: "nat \<Rightarrow> unit \<Rightarrow> bool" where
  "any_caps pid caps = True"

definition no_objection :: "nat \<Rightarrow> nat \<Rightarrow> unit \<Rightarrow> bool" where
  "no_objection tid pid caps = True"

text \<open>The defaults of the constructor (lines 16-28 and 51), on the container service.\<close>

definition default_config :: scaling_config where
  "default_config =
     \<lparr>minInstances = 1, maxInstances = 10, targetCPU = 70, targetMemory = 80,
      targetListenersPerInstance = 50, scaleDownThreshold = 30, cooldownPeriod = 300000,
      cdnSwitchThreshold = 40, relayActivationThreshold = 200,
      regions = [''us-east-1'', ''eu-west-1'', ''ap-southeast-1''], useKubernetes = False\<rparr>"

text \<open>
  Surroundings in which requests take no time, timers are exact and no metrics message
  arrives; broadcast \<open>X\<close> has three listeners in \<open>eu-west-1\<close> and two in \<open>us-east-1\<close>. In
  \<open>late_env\<close> every timer fires one millisecond late.
\<close>

definition ideal_env :: env where
  "ideal_env =
     \<lparr>latency = (\<lambda>t. 0), lateness = (\<lambda>t. 0), incoming = (\<lambda>t. []),
      presence = (\<lambda>b. if b = ''X''
                       then [(''u1'', Some ''eu-west-1''), (''u2'', Some ''us-east-1''),
                             (''u3'', Some ''eu-west-1''), (''u4'', Some ''us-east-1''),
                             (''u5'', Some ''eu-west-1'')]
                       else []),
      upstreamServer = (\<lambda>b. ''10.0.1.1''), mediaServerOrigin = (\<lambda>b. ''10.0.1.1''),
      relay_identity = (\<lambda>n. (''relay-'' @ replicate n (CHR ''i''), ''10.0.0.1'')),
      distribution_identity = (\<lambda>n. (''dist-'' @ replicate n (CHR ''i''), ''cdn.example.com''))\<rparr>"


text \<open>Surroundings in which every request takes 200 ms.\<close>

definition slow_env :: env where
  "slow_env = ideal_env\<lparr>latency := (\<lambda>t. 200)\<rparr>"

definition sample :: "rat \<Rightarrow> int \<Rightarrow> snapshot" where
  "sample n t =
     \<lparr>cpu = Number (Num 10), memory = Number (Num 20), listenerCount = Number (Num n),
      bandwidth = Number (Num 0), timestamp = t\<rparr>"


text \<open>
  An orchestrator with two instances, the clock at one million milliseconds and no
  scaling action so far: idle (no listeners), and with three listeners on \<open>i-1\<close>.
\<close>

definition orchestrator_idle :: orchestrator where
  "orchestrator_idle =
     \<lparr>instances = [(''i-1'', \<lparr>endpoint = ''10.0.1.1'', unhealthyCount = 0\<rparr>),
                   (''i-2'', \<lparr>endpoint = ''10.0.1.2'', unhealthyCount = 0\<rparr>)],
      relayNodes = [], cdnDistributions = [],
      metrics = [(''i-1'', sample 0 0), (''i-2'', sample 0 0)],
      scalingHistory = [], lastScaleAction = 0, clock = 1000000, calls = [], emitted = [],
      metricsStore = [], relaysLaunched = 0, distributionsCreated = 0\<rparr>"


text \<open>The idle orchestrator after a scale-up by six instances.\<close>

definition after_scale_up :: orchestrator where
  "after_scale_up =
     orchestrator_idle\<lparr>
       scalingHistory := [\<lparr>ev_type = ''scale-up'', ev_timestamp = 1000000, ev_instances = Num 6,
                           ev_broadcastId = ''auto'', ev_targetLoad = Some (Num 375)\<rparr>],
       lastScaleAction := 1000000,
       calls := [(1000000, ScaleECSService (Num 6))],
       emitted := [Scaled (Num 6) (Num 8)]\<rparr>"

text \<open>A broadcast hosted by user 7, and a gateway that knows it.\<close>

definition gateway_init :: gateway where
  "gateway_init =
     \<lparr>broadcastTable =
        [(''X'', \<lparr>hostId = 7, status = ''live'', currentListenerCount = 0,
                  peakListenerCount = 0\<rparr>),
         (''Y'', \<lparr>hostId = 8, status = ''ended'', currentListenerCount = 0,
                  peakListenerCount = 0\<rparr>)],
      sessionTable = [], activeSessions = [], rooms = [], presenceUsers = [],
      userSocket = [], sent = []\<rparr>"

text \<open>The session table cannot be reached: creating a session throws.\<close>

definition create_fails :: "operation \<Rightarrow> string option" where
  "create_fails op = (if op = SessionCreate then Some ''connection refused'' else None)"

text \<open>The session is created, and counting the sessions then throws.\<close>

definition count_fails :: "operation \<Rightarrow> string option" where
  "count_fails op = (if op = SessionCount then Some ''connection lost'' else None)"

section \<open>Properties of the SFU resource manager\<close>

lemma handler_two_reachable:
  "(case createWebRtcTransport ''b1'' handler_init of
      Inr (t1, h1) \<Rightarrow>
        (case createWebRtcTransport ''b2'' h1 of
           Inr (t2, h2) \<Rightarrow> map_sum id snd (createProducer t2 ''audio'' h2)
         | Inl e \<Rightarrow> Inl e)
    | Inl e \<Rightarrow> Inl e) = Inr handler_two"
  by (simp add: createWebRtcTransport_def createRouter_def getNextWorker_def getRouter_def
      createProducer_def handler_init_def handler_two_def Let_def)

text \<open>
  C1, as stated, fails: \<open>createRouter\<close> called for a broadcast that already has a router
  does not return that router. The second call below returns a new router (id 1 on
  worker 101, not id 0 on worker 100), the engine then holds two routers made for the
  same broadcast, and the registry entry is overwritten.
\<close>

theorem createRouter_twice_counterexample:
  "createRouter ''b'' handler_init =
     Inr (\<lparr>r_id = 0, r_worker = 100\<rparr>,
          handler_init\<lparr>routers := [(''b'', \<lparr>r_id = 0, r_worker = 100\<rparr>)],
                      nextWorkerIndex := 1, engine_next := 1, engine_routers := [0]\<rparr>)
   \<and> createRouter ''b''
        (handler_init\<lparr>routers := [(''b'', \<lparr>r_id = 0, r_worker = 100\<rparr>)],
                      nextWorkerIndex := 1, engine_next := 1, engine_routers := [0]\<rparr>) =
     Inr (\<lparr>r_id = 1, r_worker = 101\<rparr>,
          handler_init\<lparr>routers := [(''b'', \<lparr>r_id = 1, r_worker = 101\<rparr>)],
                      nextWorkerIndex := 0, engine_next := 2, engine_routers := [0, 1]\<rparr>)"
  by (simp add: createRouter_def getNextWorker_def handler_init_def Let_def)

text \<open>
  C1, amended: the lookup is in \<open>createWebRtcTransport\<close>. When a router is registered for
  the broadcast, \<open>createWebRtcTransport\<close> creates the transport on that router and
  changes neither the registry nor the engine's routers. \<open>createRouter\<close> itself never
  looks for an existing router. Whenever the round-robin index points at a worker, it has
  the engine create a router with a fresh id on that worker, advances the index to the
  next worker of the pool, and registers the router under the broadcast id in place of
  any earlier entry, leaving the entries of the other broadcasts alone; the registry
  keeps one entry per broadcast id. With no worker to take, it fails.
\<close>

theorem createWebRtcTransport_reuses_router:
  "(map_of (routers h) b = Some r \<longrightarrow>
      createWebRtcTransport b h =
        Inr (engine_next h,
             h\<lparr>transports := AList.update (engine_next h) \<lparr>t_router = r_id r\<rparr> (transports h),
               engine_next := Suc (engine_next h)\<rparr>))
   \<and> (nextWorkerIndex h < length (workers h) \<longrightarrow>
        (\<exists>r' h'. createRouter b h = Inr (r', h') \<and> r_id r' = engine_next h \<and>
                  r_worker r' = workers h ! nextWorkerIndex h \<and>
                  nextWorkerIndex h' = (nextWorkerIndex h + 1) mod length (workers h) \<and>
                  workers h' = workers h \<and>
                  engine_routers h' = engine_routers h @ [r_id r'] \<and>
                  map_of (routers h') b = Some r' \<and>
                  (\<forall>b'. b' \<noteq> b \<longrightarrow> map_of (routers h') b' = map_of (routers h) b') \<and>
                  (distinct (map fst (routers h)) \<longrightarrow> distinct (map fst (routers h')))))
   \<and> (\<not> nextWorkerIndex h < length (workers h) \<longrightarrow> createRouter b h = Inl NoWorker)"
  by (auto simp: createWebRtcTransport_def getRouter_def createRouter_def getNextWorker_def
      update_conv' distinct_update Let_def)

theorem createWebRtcTransport_reuses_router_witness:
  "map_of (routers handler_two) ''b1'' = Some \<lparr>r_id = 0, r_worker = 100\<rparr>
   \<and> nextWorkerIndex handler_two < length (workers handler_two)
   \<and> createWebRtcTransport ''b1'' handler_two =
       Inr (5, handler_two\<lparr>transports :=
                             [(1, \<lparr>t_router = 0\<rparr>), (3, \<lparr>t_router = 2\<rparr>), (5, \<lparr>t_router = 0\<rparr>)],
                           engine_next := 6\<rparr>)
   \<and> (\<exists>r' h'. createRouter ''b1'' handler_two = Inr (r', h') \<and> r' = \<lparr>r_id = 5, r_worker = 100\<rparr> \<and>
          nextWorkerIndex h' = 1 \<and>
          engine_routers h' = [0, 2, 5] \<and> map_of (routers h') ''b1'' = Some r' \<and>
          map_of (routers h') ''b2'' = Some \<lparr>r_id = 2, r_worker = 101\<rparr>)
   \<and> \<not> nextWorkerIndex (handler_two\<lparr>workers := []\<rparr>) < length (workers (handler_two\<lparr>workers := []\<rparr>))
   \<and> createRouter ''b1'' (handler_two\<lparr>workers := []\<rparr>) = Inl NoWorker"
  using createWebRtcTransport_reuses_router
          [of handler_two "''b1''" "\<lparr>r_id = 0, r_worker = 100\<rparr>"]
        createWebRtcTransport_reuses_router
          [of "handler_two\<lparr>workers := []\<rparr>" "''b1''" "\<lparr>r_id = 0, r_worker = 100\<rparr>"]
  by (auto simp: handler_two_def)

text \<open>
  C4: the code does not keep the frame condition. In \<open>handler_two\<close> transport 1 belongs
  to the router of \<open>b1\<close>, transport 3 and its producer 4 to the router of \<open>b2\<close>.
  \<open>cleanupBroadcast\<close> of \<open>b1\<close> closes and unregisters all three; only the router of
  \<open>b2\<close> stays registered.
\<close>

theorem cleanupBroadcast_closes_other_broadcast:
  "cleanupBroadcast ''b1'' handler_two =
     handler_two\<lparr>routers := [(''b2'', \<lparr>r_id = 2, r_worker = 101\<rparr>)], transports := [],
                 producers := [], engine_routers := [2], engine_closed := [1, 3, 4, 0]\<rparr>"
  by (simp add: cleanupBroadcast_def getRouter_def closeTransport_def deleteRouter_def
      handler_two_def Let_def)

text \<open>
  C9: \<open>createConsumer\<close> fails with a not-found error when the transport, or else the
  producer, is unknown. Otherwise, with the engine's two operations, it creates the
  consumer only after \<open>canConsume\<close> has succeeded on a registered router that is the
  router owning the transport, which is the router the producer lives in; and a producer
  that lives in another router than the transport's is never consumed: the call ends in
  an error. When the producer lives in the transport's router, that router is
  registered, the stream is compatible and the engine has no other objection, the
  consumer is created and registered under the given transport and producer.
\<close>

theorem createConsumer_same_router:
  "(map_of (transports h) tid = None \<longrightarrow>
      createConsumer (routerCanConsume compatible h) (transportConsume accepts h) tid pid caps h =
        Inl TransportNotFound)
   \<and> (map_of (transports h) tid \<noteq> None \<and> map_of (producers h) pid = None \<longrightarrow>
      createConsumer (routerCanConsume compatible h) (transportConsume accepts h) tid pid caps h =
        Inl ProducerNotFound)
   \<and> (\<forall>cid h'.
        createConsumer (routerCanConsume compatible h) (transportConsume accepts h) tid pid caps h =
          Inr (cid, h') \<longrightarrow>
        (\<exists>t p r. map_of (transports h) tid = Some t \<and> map_of (producers h) pid = Some p \<and>
                 r \<in> snd ` set (routers h) \<and> r_id r = t_router t \<and>
                 routerCanConsume compatible h r pid caps \<and> p_router p = t_router t \<and>
                 map_of (consumers h') cid = Some \<lparr>c_transport = tid, c_producer = pid\<rparr>))
   \<and> (\<forall>t p. map_of (transports h) tid = Some t \<and> map_of (producers h) pid = Some p \<and>
            p_router p \<noteq> t_router t \<longrightarrow>
        (\<exists>err. createConsumer (routerCanConsume compatible h) (transportConsume accepts h)
                 tid pid caps h = Inl err))
   \<and> (\<forall>t p. map_of (transports h) tid = Some t \<and> map_of (producers h) pid = Some p \<and>
            p_router p = t_router t \<and> (\<exists>r \<in> snd ` set (routers h). r_id r = t_router t) \<and>
            compatible pid caps \<and> accepts tid pid caps \<longrightarrow>
        (\<exists>cid h'. createConsumer (routerCanConsume compatible h) (transportConsume accepts h)
                    tid pid caps h = Inr (cid, h')))"
proof -
  let ?run = "createConsumer (routerCanConsume compatible h) (transportConsume accepts h)
                tid pid caps h"
  have unknown_t: "map_of (transports h) tid = None \<longrightarrow> ?run = Inl TransportNotFound"
    by (simp add: createConsumer_def)
  have unknown_p: "map_of (transports h) tid \<noteq> None \<and> map_of (producers h) pid = None \<longrightarrow>
      ?run = Inl ProducerNotFound"
    by (auto simp: createConsumer_def)
  have created: "\<exists>t p r. map_of (transports h) tid = Some t \<and> map_of (producers h) pid = Some p \<and>
                 r \<in> snd ` set (routers h) \<and> r_id r = t_router t \<and>
                 routerCanConsume compatible h r pid caps \<and> p_router p = t_router t \<and>
                 map_of (consumers h') cid = Some \<lparr>c_transport = tid, c_producer = pid\<rparr>"
    if run: "?run = Inr (cid, h')" for cid h'
  proof -
    from run obtain t where t: "map_of (transports h) tid = Some t"
      by (auto simp: createConsumer_def split: option.splits)
    from run t obtain p where p: "map_of (producers h) pid = Some p"
      by (auto simp: createConsumer_def split: option.splits)
    from run t p obtain r where
      found: "find (\<lambda>r. routerCanConsume compatible h r pid caps) (map snd (routers h)) = Some r"
      by (auto simp: createConsumer_def split: option.splits)
    then have r: "r \<in> snd ` set (routers h)" "routerCanConsume compatible h r pid caps"
      by (auto simp: find_Some_iff)
    from run t p found have cons: "transportConsume accepts h tid pid caps"
      and reg: "map_of (consumers h') cid = Some \<lparr>c_transport = tid, c_producer = pid\<rparr>"
      by (auto simp: createConsumer_def Let_def update_conv' split: if_splits)
    from cons t p have same: "p_router p = t_router t"
      by (simp add: transportConsume_def)
    from r(2) p have "p_router p = r_id r"
      by (simp add: routerCanConsume_def)
    with same have "r_id r = t_router t" by simp
    with t p r same reg show ?thesis by blast
  qed
  have other: "\<exists>err. ?run = Inl err"
    if "map_of (transports h) tid = Some t" "map_of (producers h) pid = Some p"
       "p_router p \<noteq> t_router t" for t p
    using that
    by (auto simp: createConsumer_def transportConsume_def split: option.splits)
  have made: "\<exists>cid h'. ?run = Inr (cid, h')"
    if t: "map_of (transports h) tid = Some t" and p: "map_of (producers h) pid = Some p"
      and same: "p_router p = t_router t"
      and reg: "\<exists>r \<in> snd ` set (routers h). r_id r = t_router t"
      and ok: "compatible pid caps" "accepts tid pid caps" for t p
  proof -
    from reg obtain r where r: "r \<in> set (map snd (routers h))" "r_id r = t_router t" by auto
    have "routerCanConsume compatible h r pid caps"
      using p same ok r(2) by (simp add: routerCanConsume_def)
    with r(1) have "\<exists>r \<in> set (map snd (routers h)). routerCanConsume compatible h r pid caps"
      by blast
    then obtain r' where
      "find (\<lambda>r. routerCanConsume compatible h r pid caps) (map snd (routers h)) = Some r'"
      by (cases "find (\<lambda>r. routerCanConsume compatible h r pid caps) (map snd (routers h))")
         (auto simp: find_None_iff)
    with t p same ok show ?thesis
      by (simp add: createConsumer_def transportConsume_def Let_def)
  qed
  from unknown_t unknown_p created other made show ?thesis by blast
qed

theorem createConsumer_same_router_witness:
  "map_of (transports handler_two) 9 = None
   \<and> createConsumer (routerCanConsume any_caps handler_two)
         (transportConsume no_objection handler_two) 9 4 () handler_two = Inl TransportNotFound
   \<and> map_of (transports handler_two) 3 \<noteq> None \<and> map_of (producers handler_two) 8 = None
   \<and> createConsumer (routerCanConsume any_caps handler_two)
         (transportConsume no_objection handler_two) 3 8 () handler_two = Inl ProducerNotFound
   \<and> map_of (transports handler_two) 1 = Some \<lparr>t_router = 0\<rparr>
   \<and> map_of (producers handler_two) 4 =
       Some \<lparr>p_transport = 3, p_router = 2, p_kind = ''audio''\<rparr>
   \<and> (\<exists>err. createConsumer (routerCanConsume any_caps handler_two)
         (transportConsume no_objection handler_two) 1 4 () handler_two = Inl err)
   \<and> map_of (transports handler_two) 3 = Some \<lparr>t_router = 2\<rparr>
   \<and> (\<exists>cid h'. createConsumer (routerCanConsume any_caps handler_two)
         (transportConsume no_objection handler_two) 3 4 () handler_two = Inr (cid, h') \<and>
        map_of (consumers h') cid = Some \<lparr>c_transport = 3, c_producer = 4\<rparr>)"
proof -
  have facts: "map_of (transports handler_two) 9 = None"
    "map_of (transports handler_two) 3 = Some \<lparr>t_router = 2\<rparr>"
    "map_of (transports handler_two) 1 = Some \<lparr>t_router = 0\<rparr>"
    "map_of (producers handler_two) 8 = None"
    "map_of (producers handler_two) 4 = Some \<lparr>p_transport = 3, p_router = 2, p_kind = ''audio''\<rparr>"
    "\<exists>r \<in> snd ` set (routers handler_two). r_id r = 2"
    "any_caps 4 ()" "no_objection 3 4 ()"
    by (simp_all add: handler_two_def any_caps_def no_objection_def)
  show ?thesis
    using facts
      createConsumer_same_router [of handler_two 9 any_caps no_objection 4 "()"]
      createConsumer_same_router [of handler_two 3 any_caps no_objection 8 "()"]
      createConsumer_same_router [of handler_two 1 any_caps no_objection 4 "()"]
      createConsumer_same_router [of handler_two 3 any_caps no_objection 4 "()"]
    by auto
qed

section \<open>Properties of the capacity controller\<close>

subsection \<open>What each operation leaves unchanged\<close>

lemma external_fields [simp]:
  "scalingHistory (external e c st) = scalingHistory st"
  "lastScaleAction (external e c st) = lastScaleAction st"
  "metrics (external e c st) = metrics st"
  "instances (external e c st) = instances st"
  "relayNodes (external e c st) = relayNodes st"
  "relaysLaunched (external e c st) = relaysLaunched st"
  "cdnDistributions (external e c st) = cdnDistributions st"
  "distributionsCreated (external e c st) = distributionsCreated st"
  "clock (external e c st) = clock st + int (latency e (clock st))"
  "calls (external e c st) = calls st @ [(clock st, c)]"
  by (simp_all add: external_def send_def arrive_def)

lemma processMetrics_fields [simp]:
  "scalingHistory (processMetrics i m st) = scalingHistory st"
  "lastScaleAction (processMetrics i m st) = lastScaleAction st"
  "clock (processMetrics i m st) = clock st"
  "calls (processMetrics i m st) = calls st"
  "relayNodes (processMetrics i m st) = relayNodes st"
  "relaysLaunched (processMetrics i m st) = relaysLaunched st"
  by (simp_all add: processMetrics_def)

lemma fold_processMetrics_fields [simp]:
  "scalingHistory (fold (\<lambda>(t, i, m) s. processMetrics i m (s\<lparr>clock := t\<rparr>)) ms st) =
     scalingHistory st"
  "lastScaleAction (fold (\<lambda>(t, i, m) s. processMetrics i m (s\<lparr>clock := t\<rparr>)) ms st) =
     lastScaleAction st"
  "calls (fold (\<lambda>(t, i, m) s. processMetrics i m (s\<lparr>clock := t\<rparr>)) ms st) = calls st"
  "relayNodes (fold (\<lambda>(t, i, m) s. processMetrics i m (s\<lparr>clock := t\<rparr>)) ms st) =
     relayNodes st"
  "relaysLaunched (fold (\<lambda>(t, i, m) s. processMetrics i m (s\<lparr>clock := t\<rparr>)) ms st) =
     relaysLaunched st"
  by (induction ms arbitrary: st; auto)+

lemma clock_sleep5000:
  "clock (sleep5000 e st) = clock st + 5000 + int (lateness e (clock st))"
  by (simp add: sleep5000_def Let_def)

lemma sleep5000_fields [simp]:
  "scalingHistory (sleep5000 e st) = scalingHistory st"
  "lastScaleAction (sleep5000 e st) = lastScaleAction st"
  "calls (sleep5000 e st) = calls st"
  "relayNodes (sleep5000 e st) = relayNodes st"
  "relaysLaunched (sleep5000 e st) = relaysLaunched st"
  by (simp_all add: sleep5000_def Let_def)

lemma drainLoop_fields:
  "scalingHistory (snd (drainLoop e ids s st)) = scalingHistory st \<and>
   lastScaleAction (snd (drainLoop e ids s st)) = lastScaleAction st \<and>
   calls (snd (drainLoop e ids s st)) = calls st \<and>
   relayNodes (snd (drainLoop e ids s st)) = relayNodes st \<and>
   relaysLaunched (snd (drainLoop e ids s st)) = relaysLaunched st \<and>
   clock st \<le> clock (snd (drainLoop e ids s st))"
proof (induction e ids s st rule: drainLoop.induct)
  case (1 e ids s st)
  show ?case
  proof (cases "clock st - s < 60000 \<and> \<not> allDrained ids st")
    case True
    with 1 show ?thesis
      by (subst (1 2 3 4 5 6) drainLoop.simps) (simp add: clock_sleep5000)
  next
    case False
    then show ?thesis
      by (subst (1 2 3 4 5 6) drainLoop.simps) auto
  qed
qed

lemma markDraining_fields:
  "scalingHistory (markDraining e ids st) = scalingHistory st \<and>
   lastScaleAction (markDraining e ids st) = lastScaleAction st \<and>
   relayNodes (markDraining e ids st) = relayNodes st \<and>
   relaysLaunched (markDraining e ids st) = relaysLaunched st \<and>
   clock st \<le> clock (markDraining e ids st)"
  unfolding markDraining_def
proof (induction ids arbitrary: st)
  case Nil
  show ?case by simp
next
  case (Cons i ids)
  show ?case
    using Cons [of "external e (PublishDrain i) (external e (MarkDraining i) st)"]
    by simp
qed


lemma drainInstances_fields:
  "scalingHistory (snd (drainInstances e ids st)) = scalingHistory st \<and>
   lastScaleAction (snd (drainInstances e ids st)) = lastScaleAction st \<and>
   relayNodes (snd (drainInstances e ids st)) = relayNodes st \<and>
   relaysLaunched (snd (drainInstances e ids st)) = relaysLaunched st \<and>
   clock st \<le> clock (snd (drainInstances e ids st))"
  using drainLoop_fields [of e ids "clock (markDraining e ids st)" "markDraining e ids st"]
        markDraining_fields [of e ids st]
  by (simp add: drainInstances_def Let_def)


subsection \<open>Instance bounds\<close>

text \<open>
  The scale-up half of C2 holds for a finite target load and a non-zero
  \<open>targetListenersPerInstance\<close>: the total announced by a scale-up is at most
  \<open>maxInstances\<close>.
\<close>

lemma scaleUp_within_maxInstances:
  "scaleUp cfg e b (Num x) st \<noteq> st \<Longrightarrow> targetListenersPerInstance cfg \<noteq> 0 \<Longrightarrow>
   \<exists>n t. last (emitted (scaleUp cfg e b (Num x) st)) = Scaled n t \<and>
         js_le t (Num (of_int (maxInstances cfg)))"
  by (auto simp: scaleUp_def Let_def js_sub_def js_min_def js_le_def split: if_splits)

text \<open>
  C2: the code breaks the lower bound. With the constructor's defaults
  (\<open>minInstances = 1\<close>), two instances and no listeners, \<open>instancesNeeded\<close> is 0 and
  \<open>instancesToRemove = Math.max(2 - 0, 2 - 1) = 2\<close>: \<open>scaleDown\<close> drains and terminates
  both instances, one more than \<open>current - minInstances\<close>, and none remains.
\<close>

theorem scaleDown_below_minInstances:
  "minInstances default_config = 1
   \<and> map fst (instances orchestrator_idle) = [''i-1'', ''i-2'']
   \<and> map snd (calls (scaleDown default_config ideal_env ''auto'' orchestrator_idle)) =
       [MarkDraining ''i-1'', PublishDrain ''i-1'', MarkDraining ''i-2'', PublishDrain ''i-2'',
        TerminateECSInstances [''i-1'', ''i-2'']]
   \<and> map ev_instances
         (scalingHistory (scaleDown default_config ideal_env ''auto'' orchestrator_idle)) =
       [Num 2]"
  by code_simp

subsection \<open>Cooldown\<close>

lemma spaced_snoc:
  "spaced c ts \<Longrightarrow> list_all (\<lambda>t. c \<le> u - t) ts \<Longrightarrow> spaced c (ts @ [u])"
  by (induction ts) auto

lemma history_ok_action:
  assumes ok: "history_ok c st"
    and nonneg: "0 \<le> c"
    and guard: "\<not> clock st - lastScaleAction st < c"
    and later: "clock st \<le> t"
    and last: "lastScaleAction st' = t"
    and hist: "map ev_timestamp (scalingHistory st') = map ev_timestamp (scalingHistory st) @ [t]"
  shows "history_ok c st'"
proof -
  have old: "list_all (\<lambda>u. u \<le> lastScaleAction st) (map ev_timestamp (scalingHistory st))"
    and sp: "spaced c (map ev_timestamp (scalingHistory st))"
    using ok by (simp_all add: history_ok_def)
  have far: "list_all (\<lambda>u. c \<le> t - u) (map ev_timestamp (scalingHistory st))"
    using old guard later by (auto simp: list_all_iff)
  have below: "list_all (\<lambda>u. u \<le> t) (map ev_timestamp (scalingHistory st))"
    using old guard later nonneg by (fastforce simp: list_all_iff)
  show ?thesis
    using spaced_snoc [OF sp far] below by (simp add: history_ok_def last hist)
qed

lemma history_ok_frame:
  "history_ok c st \<Longrightarrow> scalingHistory st' = scalingHistory st \<Longrightarrow>
   lastScaleAction st' = lastScaleAction st \<Longrightarrow> history_ok c st'"
  by (simp add: history_ok_def)

lemma scaleUp_effect:
  "scaleUp cfg e b l st = st \<or>
   (\<not> clock st - lastScaleAction st < cooldownPeriod cfg \<and>
    clock st \<le> clock (scaleUp cfg e b l st) \<and>
    lastScaleAction (scaleUp cfg e b l st) = clock (scaleUp cfg e b l st) \<and>
    map ev_timestamp (scalingHistory (scaleUp cfg e b l st)) =
      map ev_timestamp (scalingHistory st) @ [clock (scaleUp cfg e b l st)])"
  by (simp add: scaleUp_def Let_def)

lemma scaleDown_effect:
  "scaleDown cfg e b st = st \<or>
   (\<not> clock st - lastScaleAction st < cooldownPeriod cfg \<and>
    clock st \<le> clock (scaleDown cfg e b st) \<and>
    lastScaleAction (scaleDown cfg e b st) = clock (scaleDown cfg e b st) \<and>
    map ev_timestamp (scalingHistory (scaleDown cfg e b st)) =
      map ev_timestamp (scalingHistory st) @ [clock (scaleDown cfg e b st)])"
proof -
  have le: "\<And>ids. clock st \<le> clock (snd (drainInstances e ids st)) +
              int (latency e (clock (snd (drainInstances e ids st))))"
    using drainInstances_fields [of e _ st] by (simp add: add_increasing2)
  show ?thesis
    by (simp add: scaleDown_def Let_def drainInstances_fields le)
qed

text \<open>
  A scaling call that nothing interrupts keeps the recorded actions a cooldown apart, and
  so does every other request.
\<close>

lemma scaleUp_history_ok:
  "0 \<le> cooldownPeriod cfg \<Longrightarrow> history_ok (cooldownPeriod cfg) st \<Longrightarrow>
   history_ok (cooldownPeriod cfg) (scaleUp cfg e b l st)"
  using scaleUp_effect [of cfg e b l st] by (auto intro: history_ok_action)

lemma scaleDown_history_ok:
  "0 \<le> cooldownPeriod cfg \<Longrightarrow> history_ok (cooldownPeriod cfg) st \<Longrightarrow>
   history_ok (cooldownPeriod cfg) (scaleDown cfg e b st)"
  using scaleDown_effect [of cfg e b st] by (auto intro: history_ok_action)

lemma launchRelayInstance_frame:
  "scalingHistory (snd (launchRelayInstance cfg e c st)) = scalingHistory st \<and>
   lastScaleAction (snd (launchRelayInstance cfg e c st)) = lastScaleAction st \<and>
   relayNodes (snd (launchRelayInstance cfg e c st)) = relayNodes st \<and>
   relaysLaunched (snd (launchRelayInstance cfg e c st)) = Suc (relaysLaunched st) \<and>
   fst (launchRelayInstance cfg e c st) = relay_identity e (relaysLaunched st)"
  by (simp add: launchRelayInstance_def Let_def)

lemma addRelayNode_frame:
  "scalingHistory (snd (addRelayNode cfg e b l st)) = scalingHistory st \<and>
   lastScaleAction (snd (addRelayNode cfg e b l st)) = lastScaleAction st"
  using launchRelayInstance_frame
    [of cfg e "\<lparr>rc_region = selectOptimalRegion cfg (getListenerRegionDistribution e b),
                rc_instanceType = selectInstanceType l, rc_broadcastId = b,
                rc_upstream = upstreamServer e b\<rparr>" st]
  by (auto simp: addRelayNode_def Let_def split: prod.splits)

lemma activateCDN_frame:
  "scalingHistory (snd (activateCDN e b st)) = scalingHistory st \<and>
   lastScaleAction (snd (activateCDN e b st)) = lastScaleAction st \<and>
   relayNodes (snd (activateCDN e b st)) = relayNodes st \<and>
   relaysLaunched (snd (activateCDN e b st)) = relaysLaunched st"
  by (simp add: activateCDN_def createCDNDistribution_def Let_def
      split: prod.splits option.splits)

lemma activateCDN_provisions:
  "filter provisions (map snd (calls (snd (activateCDN e b st)))) =
     filter provisions (map snd (calls st))"
  by (simp add: activateCDN_def createCDNDistribution_def Let_def
      split: prod.splits option.splits)

lemma broadcastStep_frame:
  "scalingHistory (broadcastStep cfg e a st) = scalingHistory st \<and>
   lastScaleAction (broadcastStep cfg e a st) = lastScaleAction st"
  by (simp add: broadcastStep_def Let_def addRelayNode_frame activateCDN_frame)

lemma fold_broadcastStep_frame:
  "scalingHistory (fold (broadcastStep cfg e) bs st) = scalingHistory st \<and>
   lastScaleAction (fold (broadcastStep cfg e) bs st) = lastScaleAction st"
  by (induction bs arbitrary: st) (simp_all add: broadcastStep_frame)

lemma handleScalingRequest_history_ok:
  assumes nonneg: "0 \<le> cooldownPeriod cfg" and ok: "history_ok (cooldownPeriod cfg) st"
  shows "history_ok (cooldownPeriod cfg) (handleScalingRequest cfg e r st)"
proof (cases r)
  case (ScaleUpRequest b l)
  then show ?thesis using scaleUp_history_ok [OF nonneg ok] by simp
next
  case (ScaleDownRequest b)
  then show ?thesis using scaleDown_history_ok [OF nonneg ok] by simp
next
  case (AddRelayRequest b l)
  then show ?thesis
    using history_ok_frame [OF ok] addRelayNode_frame [of cfg e b l st] by simp
next
  case (ActivateCdnRequest b)
  then show ?thesis
    using history_ok_frame [OF ok] activateCDN_frame [of e b st] by simp
qed

text \<open>
  The pieces of a scaling call, run one after the other with nothing in between, are the
  call.
\<close>

lemma scaleUp_pieces:
  "scaleUp cfg e b l st =
     (case scaleUpBegin cfg b l st of
        None \<Rightarrow> st
      | Some (p, st1) \<Rightarrow>
          snd (resume cfg e \<lparr>f_pending = p, f_sent = clock st, f_then = []\<rparr> st1))"
  by (simp add: scaleUp_def scaleUpBegin_def resume_def external_def send_def arrive_def Let_def)

lemma scaleDownBegin_acts:
  "\<not> clock st - lastScaleAction st < cooldownPeriod cfg \<Longrightarrow>
   \<not> js_le (instancesToRemove cfg st) (Num 0) \<Longrightarrow>
   scaleDownBegin cfg b st =
     Some (AwaitDrain b (instancesToRemove cfg st) (instancesToTerminate cfg st), st)"
  by (simp add: scaleDownBegin_def)

lemma scaleDownBegin_returns:
  "clock st - lastScaleAction st < cooldownPeriod cfg \<or>
   js_le (instancesToRemove cfg st) (Num 0) \<Longrightarrow>
   scaleDownBegin cfg b st = None \<and> scaleDown cfg e b st = st"
  by (auto simp: scaleDownBegin_def scaleDown_def instancesToRemove_def Let_def)

lemma scaleDown_acts:
  "\<not> clock st - lastScaleAction st < cooldownPeriod cfg \<Longrightarrow>
   \<not> js_le (instancesToRemove cfg st) (Num 0) \<Longrightarrow>
   scaleDown cfg e b st =
     (let st1 = snd (drainInstances e (instancesToTerminate cfg st) st);
          st2 = external e (if useKubernetes cfg
                            then ScaleKubernetesDeployment (js_neg (instancesToRemove cfg st))
                            else TerminateECSInstances (instancesToTerminate cfg st)) st1
      in st2\<lparr>lastScaleAction := clock st2,
             scalingHistory := scalingHistory st2 @
               [\<lparr>ev_type = ''scale-down'', ev_timestamp = clock st2,
                 ev_instances = instancesToRemove cfg st, ev_broadcastId = b,
                 ev_targetLoad = None\<rparr>]\<rparr>)"
  by (simp add: scaleDown_def instancesToRemove_def instancesToTerminate_def Let_def)

lemma scaleDown_pieces:
  "scaleDown cfg e b st =
     (case scaleDownBegin cfg b st of
        None \<Rightarrow> st
      | Some (p, st1) \<Rightarrow>
          (case resume cfg e \<lparr>f_pending = p, f_sent = clock st, f_then = []\<rparr> st1 of
             (Some fr, st2) \<Rightarrow> snd (resume cfg e fr st2)
           | (None, st2) \<Rightarrow> st2))"
proof (cases "clock st - lastScaleAction st < cooldownPeriod cfg \<or>
    js_le (instancesToRemove cfg st) (Num 0)")
  case True
  then show ?thesis using scaleDownBegin_returns [of st cfg b e] by simp
next
  case False
  then show ?thesis
    by (simp add: scaleDownBegin_acts scaleDown_acts resume_def external_def send_def
        arrive_def Let_def)
qed

lemma scaleUpBegin_Some:
  "scaleUpBegin cfg b l st = Some (p, st1) \<Longrightarrow> \<exists>current n. p = AwaitScale b l current n"
  by (auto simp: scaleUpBegin_def Let_def split: if_splits)

lemma run_alone_scaleUp:
  "run cfg e [Invoke (ScaleUpRequest b l), Resume 0] (st, []) = (scaleUp cfg e b l st, [])"
proof (cases "scaleUpBegin cfg b l st")
  case None
  then show ?thesis by (simp add: run_def invoke_def scaleUp_pieces)
next
  case (Some a)
  obtain p st1 where a: "a = (p, st1)" by (cases a)
  with Some scaleUpBegin_Some obtain current n where "p = AwaitScale b l current n"
    by blast
  with Some a show ?thesis
    by (simp add: run_def invoke_def scaleUp_pieces resume_def Let_def)
qed

lemma run_alone_scaleDown:
  "run cfg e [Invoke (ScaleDownRequest b), Resume 0, Resume 0] (st, []) =
     (scaleDown cfg e b st, [])"
proof (cases "clock st - lastScaleAction st < cooldownPeriod cfg \<or>
    js_le (instancesToRemove cfg st) (Num 0)")
  case True
  then show ?thesis
    using scaleDownBegin_returns [of st cfg b e] by (simp add: run_def invoke_def)
next
  case False
  then show ?thesis
    by (simp add: run_def invoke_def scaleDownBegin_acts scaleDown_acts resume_def
        external_def send_def arrive_def Let_def)
qed

text \<open>
  C3: the code breaks the cooldown when two scaling calls overlap. The guard reads
  \<open>lastScaleAction\<close> when a call starts (lines 169 and 217), and the call writes it only
  after its awaited request has returned (lines 196 and 260); the messages of the bus are
  dispatched without waiting for the handler of the message before (lines 86-88). With
  the constructor's defaults (\<open>cooldownPeriod\<close> 300000 ms) and a provider that answers
  after 200 ms, two scale-up requests handled 1 ms apart both pass the guard: each sends
  its request for six instances to the provider, and two scale-up actions are recorded,
  completed at 1000200 and at 1000201, one millisecond apart.
\<close>

theorem cooldown_broken_by_overlapping_scaleUp:
  "cooldownPeriod default_config = 300000
   \<and> run default_config slow_env
       [Invoke (ScaleUpRequest ''auto'' (Num 375)), Elapse 1,
        Invoke (ScaleUpRequest ''auto'' (Num 375)), Elapse 199, Resume 0, Elapse 1, Resume 0]
       (orchestrator_idle, []) =
     (orchestrator_idle\<lparr>
        clock := 1000201,
        lastScaleAction := 1000201,
        scalingHistory :=
          [\<lparr>ev_type = ''scale-up'', ev_timestamp = 1000200, ev_instances = Num 6,
            ev_broadcastId = ''auto'', ev_targetLoad = Some (Num 375)\<rparr>,
           \<lparr>ev_type = ''scale-up'', ev_timestamp = 1000201, ev_instances = Num 6,
            ev_broadcastId = ''auto'', ev_targetLoad = Some (Num 375)\<rparr>],
        calls := [(1000000, ScaleECSService (Num 6)), (1000001, ScaleECSService (Num 6))],
        emitted := [Scaled (Num 6) (Num 8), Scaled (Num 6) (Num 8)]\<rparr>,
      [])"
proof -
  have needed: "\<lceil>(15 :: rat) / 2\<rceil> = 8"
    by (rule ceiling_unique) simp_all
  show ?thesis
    by (simp add: run_def invoke_def scaleUpBegin_def resume_def send_def arrive_def
        default_config_def slow_env_def ideal_env_def orchestrator_idle_def Let_def
        js_sub_def js_min_def js_le_def needed)
qed

subsection \<open>Metrics aggregation\<close>

text \<open>
  Only a metrics message of an instance changes the stored snapshot of that instance:
  line 130 is the only write to \<open>this.metrics\<close>.
\<close>

lemma send_arrive_metrics [simp]:
  "metrics (send c st) = metrics st" "metrics (arrive e t st) = metrics st"
  by (simp_all add: send_def arrive_def)

lemma processMetrics_keeps:
  "j \<noteq> i \<Longrightarrow> map_of (metrics (processMetrics j m st)) i = map_of (metrics st) i"
  by (simp add: processMetrics_def update_conv')

lemma fold_processMetrics_keeps:
  "i \<notin> set (map (\<lambda>(t, j, m). j) ms) \<Longrightarrow>
   map_of (metrics (fold (\<lambda>(t, j, m) s. processMetrics j m (s\<lparr>clock := t\<rparr>)) ms st)) i =
     map_of (metrics st) i"
proof (induction ms arbitrary: st)
  case Nil
  show ?case by simp
next
  case (Cons x ms)
  obtain t j m where x: "x = (t, j, m)" by (cases x)
  with Cons.prems have "j \<noteq> i" "i \<notin> set (map (\<lambda>(t, j, m). j) ms)" by auto
  then show ?case
    by (simp add: x Cons.IH processMetrics_keeps)
qed

lemma sleep5000_keeps:
  "\<forall>t. i \<notin> set (map (\<lambda>(t, j, m). j) (incoming e t)) \<Longrightarrow>
   map_of (metrics (sleep5000 e st)) i = map_of (metrics st) i"
  by (simp add: sleep5000_def Let_def fold_processMetrics_keeps)

lemma drainLoop_keeps:
  "\<forall>t. i \<notin> set (map (\<lambda>(t, j, m). j) (incoming e t)) \<Longrightarrow>
   map_of (metrics (snd (drainLoop e ids s st))) i = map_of (metrics st) i"
proof (induction e ids s st rule: drainLoop.induct)
  case (1 e ids s st)
  show ?case
  proof (cases "clock st - s < 60000 \<and> \<not> allDrained ids st")
    case True
    with 1 show ?thesis
      by (subst drainLoop.simps) (simp add: sleep5000_keeps)
  next
    case False
    then show ?thesis
      by (subst drainLoop.simps) auto
  qed
qed

lemma markDraining_metrics: "metrics (markDraining e ids st) = metrics st"
  unfolding markDraining_def
  by (induction ids arbitrary: st) simp_all

lemma drainInstances_keeps:
  "\<forall>t. i \<notin> set (map (\<lambda>(t, j, m). j) (incoming e t)) \<Longrightarrow>
   map_of (metrics (snd (drainInstances e ids st))) i = map_of (metrics st) i"
  by (simp add: drainInstances_def Let_def drainLoop_keeps markDraining_metrics)

lemma launchRelayInstance_metrics:
  "metrics (snd (launchRelayInstance cfg e c st)) = metrics st"
  by (simp add: launchRelayInstance_def Let_def)

lemma addRelayNode_metrics: "metrics (snd (addRelayNode cfg e b l st)) = metrics st"
  using launchRelayInstance_metrics
    [of cfg e "\<lparr>rc_region = selectOptimalRegion cfg (getListenerRegionDistribution e b),
                rc_instanceType = selectInstanceType l, rc_broadcastId = b,
                rc_upstream = upstreamServer e b\<rparr>" st]
  by (auto simp: addRelayNode_def Let_def split: prod.splits)

lemma activateCDN_metrics: "metrics (snd (activateCDN e b st)) = metrics st"
  by (simp add: activateCDN_def createCDNDistribution_def Let_def
      split: prod.splits option.splits)





lemma handleScalingRequest_keeps:
  assumes "\<forall>t. i \<notin> set (map (\<lambda>(t, j, m). j) (incoming e t))"
  shows "map_of (metrics (handleScalingRequest cfg e r st)) i = map_of (metrics st) i"
proof (cases r)
  case (ScaleUpRequest b l)
  then show ?thesis by (simp add: scaleUp_def Let_def)
next
  case (ScaleDownRequest b)
  show ?thesis
  proof (cases "clock st - lastScaleAction st < cooldownPeriod cfg \<or>
      js_le (instancesToRemove cfg st) (Num 0)")
    case True
    with ScaleDownRequest show ?thesis
      using scaleDownBegin_returns [of st cfg b e] by simp
  next
    case False
    with ScaleDownRequest assms show ?thesis
      by (simp add: scaleDown_acts Let_def drainInstances_keeps)
  qed
next
  case (AddRelayRequest b l)
  then show ?thesis by (simp add: addRelayNode_metrics)
next
  case (ActivateCdnRequest b)
  then show ?thesis by (simp add: activateCDN_metrics)
qed












lemma or0_not_NaN [simp]: "or0 v \<noteq> NaN" "NaN \<noteq> or0 v"
  by (cases v rule: or0.cases; simp)+












subsection \<open>Relay activation\<close>

lemma set_objectEntries [simp]: "set (objectEntries kvs) = set kvs"
  by (auto simp: objectEntries_def)

lemma count_objectEntries:
  "length (filter P (objectEntries kvs)) = length (filter P kvs)"
proof -
  have "length (filter P (objectEntries kvs)) =
      length (filter (\<lambda>(k, v). isArrayIndex k) (filter P kvs)) +
      length (filter (\<lambda>x. \<not> (\<lambda>(k, v). isArrayIndex k) x) (filter P kvs))"
    by (simp add: objectEntries_def filter_sort case_prod_unfold conj_commute)
  then show ?thesis
    by (simp only: sum_length_filter_compl)
qed

text \<open>The distribution holds, for each region with a listener, the number of its listeners.\<close>

lemma distribution_fold:
  assumes step: "\<And>u reg d. step (u, reg) d =
      AList.update (g reg) ((case map_of d (g reg) of None \<Rightarrow> 0 | Some c \<Rightarrow> c) + 1) d"
  shows "map_of (fold step xs acc) r =
   (if length (filter (\<lambda>(userId, reg). g reg = r) xs) = 0 then map_of acc r
    else Some ((case map_of acc r of None \<Rightarrow> 0 | Some c \<Rightarrow> c) +
               length (filter (\<lambda>(userId, reg). g reg = r) xs)))"
proof (induction xs arbitrary: acc)
  case Nil
  show ?case by simp
next
  case (Cons x xs)
  obtain u reg where x: "x = (u, reg)" by (cases x)
  show ?case
    by (simp add: x Cons.IH step update_conv')
qed

lemma distribution_fold_distinct:
  assumes step: "\<And>u reg d. step (u, reg) d =
      AList.update (g reg) ((case map_of d (g reg) of None \<Rightarrow> 0 | Some c \<Rightarrow> c) + 1) d"
  shows "distinct (map fst acc) \<Longrightarrow> distinct (map fst (fold step xs acc))"
proof (induction xs arbitrary: acc)
  case Nil
  then show ?case by simp
next
  case (Cons x xs)
  obtain u reg where x: "x = (u, reg)" by (cases x)
  show ?case
    using Cons.prems by (simp add: x step Cons.IH distinct_update)
qed

lemma distribution_counts:
  "map_of (getListenerRegionDistribution e b) r =
     (if listenersIn e b r = 0 then None else Some (listenersIn e b r))"
  unfolding getListenerRegionDistribution_def listenersIn_def
  by (subst distribution_fold
        [where g = "\<lambda>reg. case reg of None \<Rightarrow> ''unknown''
                                     | Some r \<Rightarrow> if r = [] then ''unknown'' else r"])
     (simp_all add: Let_def count_objectEntries)

lemma distribution_distinct: "distinct (map fst (getListenerRegionDistribution e b))"
  unfolding getListenerRegionDistribution_def
  by (rule distribution_fold_distinct
        [where g = "\<lambda>reg. case reg of None \<Rightarrow> ''unknown''
                                     | Some r \<Rightarrow> if r = [] then ''unknown'' else r"])
     (simp_all add: Let_def)

lemma distribution_entry:
  "(r, c) \<in> set (getListenerRegionDistribution e b) \<longleftrightarrow> c = listenersIn e b r \<and> 0 < c"
proof -
  have "(r, c) \<in> set (getListenerRegionDistribution e b) \<longleftrightarrow>
      map_of (getListenerRegionDistribution e b) r = Some c"
    using distribution_distinct [of e b] by simp
  then show ?thesis
    by (auto simp: distribution_counts)
qed

text \<open>The selection loop: the maximum so far and the region that gave it.\<close>

lemma selection_fold:
  "fold (\<lambda>(region, count) (maxListeners, optimalRegion).
           if maxListeners < count \<and> region \<in> R
           then (count, Some region) else (maxListeners, optimalRegion)) xs (m :: nat, opt) =
     (m', opt')
   \<Longrightarrow>
   m \<le> m' \<and> (\<forall>(r, c) \<in> set xs. r \<in> R \<longrightarrow> c \<le> m') \<and>
   ((m' = m \<and> opt' = opt) \<or> (m < m' \<and> (\<exists>r \<in> R. (r, m') \<in> set xs \<and> opt' = Some r)))"
proof (induction xs arbitrary: m opt)
  case Nil
  then show ?case by simp
next
  case (Cons x xs)
  obtain r c where x: "x = (r, c)" by (cases x)
  show ?case
  proof (cases "m < c \<and> r \<in> R")
    case True
    with Cons.prems x have "fold (\<lambda>(region, count) (maxListeners, optimalRegion).
           if maxListeners < count \<and> region \<in> R
           then (count, Some region) else (maxListeners, optimalRegion)) xs (c, Some r) = (m', opt')"
      by simp
    from Cons.IH [OF this] True x show ?thesis by auto
  next
    case False
    with Cons.prems x have "fold (\<lambda>(region, count) (maxListeners, optimalRegion).
           if maxListeners < count \<and> region \<in> R
           then (count, Some region) else (maxListeners, optimalRegion)) xs (m, opt) = (m', opt')"
      by auto
    from Cons.IH [OF this] False x show ?thesis by auto
  qed
qed

lemma selectOptimalRegion_most:
  "if \<exists>r \<in> set (regions cfg). 0 < listenersIn e b r
   then \<exists>r \<in> set (regions cfg).
          selectOptimalRegion cfg (getListenerRegionDistribution e b) = Some r \<and>
          0 < listenersIn e b r \<and>
          (\<forall>r' \<in> set (regions cfg). listenersIn e b r' \<le> listenersIn e b r)
   else selectOptimalRegion cfg (getListenerRegionDistribution e b) =
          (case regions cfg of [] \<Rightarrow> None | r # _ \<Rightarrow> Some r)"
proof -
  let ?D = "getListenerRegionDistribution e b"
  let ?init = "case regions cfg of [] \<Rightarrow> None | r # _ \<Rightarrow> Some r"
  obtain m' opt' where f: "fold (\<lambda>(region, count) (maxListeners, optimalRegion).
           if maxListeners < count \<and> region \<in> set (regions cfg)
           then (count, Some region) else (maxListeners, optimalRegion))
        (objectEntries ?D) (0, ?init) = (m', opt')"
    by (meson surj_pair)
  then have sel: "selectOptimalRegion cfg ?D = opt'"
    by (simp add: selectOptimalRegion_def)
  from selection_fold [OF f]
  have bound: "\<forall>(r, c) \<in> set ?D. r \<in> set (regions cfg) \<longrightarrow> c \<le> m'"
    and which: "(m' = 0 \<and> opt' = ?init) \<or>
      (0 < m' \<and> (\<exists>r \<in> set (regions cfg). (r, m') \<in> set ?D \<and> opt' = Some r))"
    by simp_all
  have le: "listenersIn e b r' \<le> m'" if "r' \<in> set (regions cfg)" for r'
  proof (cases "listenersIn e b r' = 0")
    case True
    then show ?thesis by simp
  next
    case False
    then have "(r', listenersIn e b r') \<in> set ?D"
      by (simp add: distribution_entry)
    with bound that show ?thesis by auto
  qed
  show ?thesis
  proof (cases "\<exists>r \<in> set (regions cfg). 0 < listenersIn e b r")
    case True
    then obtain r0 where r0: "r0 \<in> set (regions cfg)" "0 < listenersIn e b r0" by blast
    with le [of r0] have "0 < m'" by simp
    with which obtain r where r: "r \<in> set (regions cfg)" "(r, m') \<in> set ?D" "opt' = Some r"
      by auto
    from r(2) have m': "m' = listenersIn e b r" "0 < listenersIn e b r"
      by (simp_all add: distribution_entry)
    have "selectOptimalRegion cfg ?D = Some r \<and> 0 < listenersIn e b r \<and>
        (\<forall>r' \<in> set (regions cfg). listenersIn e b r' \<le> listenersIn e b r)"
      using sel r(3) m' le by auto
    with r(1) have "\<exists>r \<in> set (regions cfg).
          selectOptimalRegion cfg ?D = Some r \<and> 0 < listenersIn e b r \<and>
          (\<forall>r' \<in> set (regions cfg). listenersIn e b r' \<le> listenersIn e b r)"
      by blast
    with True show ?thesis by (simp only: if_True)
  next
    case False
    have "\<not> (0 < m' \<and> (\<exists>r \<in> set (regions cfg). (r, m') \<in> set ?D \<and> opt' = Some r))"
      using False by (auto simp: distribution_entry)
    with which have "opt' = ?init" by blast
    with sel have "selectOptimalRegion cfg ?D = ?init" by simp
    with False show ?thesis by (simp only: if_False)
  qed
qed

lemma launchRelayInstance_calls:
  "map snd (calls (snd (launchRelayInstance cfg e c st))) =
     map snd (calls st) @ launchCalls cfg e (rc_broadcastId c) (rc_region c) st"
  if "rc_upstream c = upstreamServer e (rc_broadcastId c)"
  using that by (simp add: launchRelayInstance_def launchCalls_def Let_def)

lemma addRelayNode_calls:
  "map snd (calls (snd (addRelayNode cfg e b load st))) =
     map snd (calls st) @
     launchCalls cfg e b (selectOptimalRegion cfg (getListenerRegionDistribution e b)) st @
     [ConfigureRelay (fst (relay_identity e (relaysLaunched st))) b,
      UpdateRoutingRules b (fst (relay_identity e (relaysLaunched st))),
      PublishRelayAdded b (fst (relay_identity e (relaysLaunched st)))
        (snd (relay_identity e (relaysLaunched st)))
        (selectOptimalRegion cfg (getListenerRegionDistribution e b))]"
proof -
  let ?c = "\<lparr>rc_region = selectOptimalRegion cfg (getListenerRegionDistribution e b),
             rc_instanceType = selectInstanceType load, rc_broadcastId = b,
             rc_upstream = upstreamServer e b\<rparr>"
  obtain rid ep st1 where l: "launchRelayInstance cfg e ?c st = ((rid, ep), st1)"
    by (metis surj_pair)
  have id: "relay_identity e (relaysLaunched st) = (rid, ep)"
    using launchRelayInstance_frame [of cfg e ?c st] l by simp
  have c: "map snd (calls st1) = map snd (calls st) @
      launchCalls cfg e b (selectOptimalRegion cfg (getListenerRegionDistribution e b)) st"
    using launchRelayInstance_calls [of ?c e cfg st] l by simp
  show ?thesis
    by (simp add: addRelayNode_def Let_def l id c)
qed

lemma addRelayNode_registers:
  "\<exists>node. map_of (relayNodes (snd (addRelayNode cfg e b load st))) =
            (map_of (relayNodes st))(fst (addRelayNode cfg e b load st) \<mapsto> node) \<and>
          rn_broadcastId node = b \<and>
          rn_endpoint node = snd (relay_identity e (relaysLaunched st)) \<and>
          rn_region node = selectOptimalRegion cfg (getListenerRegionDistribution e b)"
proof -
  let ?c = "\<lparr>rc_region = selectOptimalRegion cfg (getListenerRegionDistribution e b),
             rc_instanceType = selectInstanceType load, rc_broadcastId = b,
             rc_upstream = upstreamServer e b\<rparr>"
  obtain rid ep st1 where l: "launchRelayInstance cfg e ?c st = ((rid, ep), st1)"
    by (metis surj_pair)
  have id: "relay_identity e (relaysLaunched st) = (rid, ep)"
    and rn: "relayNodes st1 = relayNodes st"
    using launchRelayInstance_frame [of cfg e ?c st] l by simp_all
  show ?thesis
    by (simp add: addRelayNode_def Let_def l id rn update_conv')
       (rule exI, intro conjI, rule refl, simp_all)
qed

lemma addRelayNode_result:
  "fst (addRelayNode cfg e b load st) = fst (relay_identity e (relaysLaunched st)) \<and>
   relaysLaunched (snd (addRelayNode cfg e b load st)) = Suc (relaysLaunched st)"
proof -
  let ?c = "\<lparr>rc_region = selectOptimalRegion cfg (getListenerRegionDistribution e b),
             rc_instanceType = selectInstanceType load, rc_broadcastId = b,
             rc_upstream = upstreamServer e b\<rparr>"
  obtain rid ep st1 where l: "launchRelayInstance cfg e ?c st = ((rid, ep), st1)"
    by (metis surj_pair)
  have id: "relay_identity e (relaysLaunched st) = (rid, ep)"
    and n: "relaysLaunched st1 = Suc (relaysLaunched st)"
    using launchRelayInstance_frame [of cfg e ?c st] l by simp_all
  show ?thesis
    by (simp add: addRelayNode_def Let_def l id n)
qed

text \<open>
  C7, as stated, fails: two relay requests for broadcast \<open>X\<close>, whose listeners are
  mostly in \<open>eu-west-1\<close>, run two tasks and register two relay nodes for the pair
  (\<open>X\<close>, \<open>eu-west-1\<close>).
\<close>

theorem addRelayNode_twice_counterexample:
  "map (\<lambda>(i, n). (i, rn_broadcastId n, rn_region n))
     (relayNodes (handleScalingRequest default_config ideal_env (AddRelayRequest ''X'' (Num 250))
        (handleScalingRequest default_config ideal_env (AddRelayRequest ''X'' (Num 250))
           orchestrator_idle))) =
   [(''relay-'', ''X'', Some ''eu-west-1''), (''relay-i'', ''X'', Some ''eu-west-1'')]
   \<and> filter provisions (map snd
       (calls (handleScalingRequest default_config ideal_env (AddRelayRequest ''X'' (Num 250))
          (handleScalingRequest default_config ideal_env (AddRelayRequest ''X'' (Num 250))
             orchestrator_idle)))) =
     [RunTask (Some ''eu-west-1''), RunTask (Some ''eu-west-1'')]"
  by code_simp

text \<open>
  C7, amended: every \<open>addRelayNode\<close> call provisions exactly one relay instance (one pod
  created, or one task run, among the requests of \<open>launchCalls\<close>), configures it, and
  registers it, under the id the provider returned, for the given broadcast and the
  chosen region, whether or not a relay is already registered for that pair. The region
  is, when some configured region has a listener of the broadcast, a configured region
  with the most listeners, and otherwise the first configured region (none when no
  region is configured). The auto-scaling timer leaves the relays of a broadcast alone
  when its \<open>relaysActivated\<close> flag is set or its listener count is below
  \<open>relayActivationThreshold\<close>, and otherwise calls \<open>addRelayNode\<close> for it once.
\<close>

theorem addRelayNode_provisions_one:
  "map snd (calls (snd (addRelayNode cfg e b load st))) =
     map snd (calls st) @
     launchCalls cfg e b (selectOptimalRegion cfg (getListenerRegionDistribution e b)) st @
     [ConfigureRelay (fst (relay_identity e (relaysLaunched st))) b,
      UpdateRoutingRules b (fst (relay_identity e (relaysLaunched st))),
      PublishRelayAdded b (fst (relay_identity e (relaysLaunched st)))
        (snd (relay_identity e (relaysLaunched st)))
        (selectOptimalRegion cfg (getListenerRegionDistribution e b))]
   \<and> length (filter provisions
        (drop (length (calls st)) (map snd (calls (snd (addRelayNode cfg e b load st)))))) = 1
   \<and> (\<exists>node. map_of (relayNodes (snd (addRelayNode cfg e b load st))) =
            (map_of (relayNodes st))(fst (addRelayNode cfg e b load st) \<mapsto> node) \<and>
          rn_broadcastId node = b \<and>
          rn_endpoint node = snd (relay_identity e (relaysLaunched st)) \<and>
          rn_region node = selectOptimalRegion cfg (getListenerRegionDistribution e b))
   \<and> fst (addRelayNode cfg e b load st) = fst (relay_identity e (relaysLaunched st))
   \<and> relaysLaunched (snd (addRelayNode cfg e b load st)) = Suc (relaysLaunched st)
   \<and> (if \<exists>r \<in> set (regions cfg). 0 < listenersIn e b r
      then \<exists>r \<in> set (regions cfg).
             selectOptimalRegion cfg (getListenerRegionDistribution e b) = Some r \<and>
             0 < listenersIn e b r \<and>
             (\<forall>r' \<in> set (regions cfg). listenersIn e b r' \<le> listenersIn e b r)
      else selectOptimalRegion cfg (getListenerRegionDistribution e b) =
             (case regions cfg of [] \<Rightarrow> None | r # _ \<Rightarrow> Some r))
   \<and> (ab_relaysActivated a \<or>
        \<not> js_le (Num (relayActivationThreshold cfg)) (ab_listenerCount a) \<longrightarrow>
        relayNodes (broadcastStep cfg e a st) = relayNodes st \<and>
        relaysLaunched (broadcastStep cfg e a st) = relaysLaunched st \<and>
        filter provisions (map snd (calls (broadcastStep cfg e a st))) =
          filter provisions (map snd (calls st)))
   \<and> (\<not> ab_relaysActivated a \<and>
        js_le (Num (relayActivationThreshold cfg)) (ab_listenerCount a) \<longrightarrow>
        (\<exists>st1. broadcastStep cfg e a st =
                 snd (addRelayNode cfg e (ab_id a) (ab_listenerCount a) st1) \<and>
               relaysLaunched st1 = relaysLaunched st \<and> relayNodes st1 = relayNodes st \<and>
               filter provisions (map snd (calls st1)) = filter provisions (map snd (calls st))))"
proof -
  have one: "length (filter provisions
        (drop (length (calls st)) (map snd (calls (snd (addRelayNode cfg e b load st)))))) = 1"
    by (simp add: addRelayNode_calls launchCalls_def)
  have cdn: "relayNodes (snd (activateCDN e (ab_id a) st)) = relayNodes st \<and>
      relaysLaunched (snd (activateCDN e (ab_id a) st)) = relaysLaunched st \<and>
      filter provisions (map snd (calls (snd (activateCDN e (ab_id a) st)))) =
        filter provisions (map snd (calls st))"
    by (simp add: activateCDN_frame activateCDN_provisions)
  have idle: "relayNodes (broadcastStep cfg e a st) = relayNodes st \<and>
        relaysLaunched (broadcastStep cfg e a st) = relaysLaunched st \<and>
        filter provisions (map snd (calls (broadcastStep cfg e a st))) =
          filter provisions (map snd (calls st))"
    if "ab_relaysActivated a \<or>
        \<not> js_le (Num (relayActivationThreshold cfg)) (ab_listenerCount a)"
    using that cdn by (auto simp: broadcastStep_def Let_def)
  have due: "\<exists>st1. broadcastStep cfg e a st =
                 snd (addRelayNode cfg e (ab_id a) (ab_listenerCount a) st1) \<and>
               relaysLaunched st1 = relaysLaunched st \<and> relayNodes st1 = relayNodes st \<and>
               filter provisions (map snd (calls st1)) = filter provisions (map snd (calls st))"
    if "\<not> ab_relaysActivated a \<and>
        js_le (Num (relayActivationThreshold cfg)) (ab_listenerCount a)"
  proof (cases "js_le (Num (cdnSwitchThreshold cfg)) (ab_listenerCount a) \<and> \<not> ab_cdnActivated a")
    case True
    with that cdn show ?thesis
      by (intro exI [of _ "snd (activateCDN e (ab_id a) st)"])
         (simp add: broadcastStep_def Let_def)
  next
    case False
    with that show ?thesis
      by (intro exI [of _ st]) (auto simp: broadcastStep_def Let_def)
  qed
  show ?thesis
    using addRelayNode_calls [of cfg e b load st] one addRelayNode_registers [of cfg e b load st]
      addRelayNode_result [of cfg e b load st] selectOptimalRegion_most [of cfg e b] idle due
    by blast
qed

theorem addRelayNode_provisions_one_witness:
  "(\<exists>r \<in> set (regions default_config). 0 < listenersIn ideal_env ''X'' r)
   \<and> selectOptimalRegion default_config (getListenerRegionDistribution ideal_env ''X'') =
       Some ''eu-west-1''
   \<and> listenersIn ideal_env ''X'' ''eu-west-1'' = 3
   \<and> listenersIn ideal_env ''X'' ''us-east-1'' = 2
   \<and> listenersIn ideal_env ''X'' ''ap-southeast-1'' = 0
   \<and> \<not> (\<exists>r \<in> set (regions default_config). 0 < listenersIn ideal_env ''Y'' r)
   \<and> selectOptimalRegion default_config (getListenerRegionDistribution ideal_env ''Y'') =
       Some ''us-east-1''
   \<and> map snd (calls (snd (addRelayNode default_config ideal_env ''X'' (Num 250)
        orchestrator_idle))) =
       [RegisterTaskDefinition ''X'' (Some ''eu-west-1'') ''10.0.1.1'',
        RunTask (Some ''eu-west-1''), WaitForTaskRunning ''relay-'', DescribeTasks ''relay-'',
        ConfigureRelay ''relay-'' ''X'', UpdateRoutingRules ''X'' ''relay-'',
        PublishRelayAdded ''X'' ''relay-'' ''10.0.0.1'' (Some ''eu-west-1'')]
   \<and> map snd (calls (snd (addRelayNode (default_config\<lparr>useKubernetes := True\<rparr>) ideal_env ''X''
        (Num 250) orchestrator_idle))) =
       [CreateNamespacedPod (''X'', 1000000) (Some ''eu-west-1'') ''10.0.1.1'',
        WaitForPodReady (''X'', 1000000), ReadNamespacedPod (''X'', 1000000),
        ConfigureRelay ''relay-'' ''X'', UpdateRoutingRules ''X'' ''relay-'',
        PublishRelayAdded ''X'' ''relay-'' ''10.0.0.1'' (Some ''eu-west-1'')]
   \<and> fst (addRelayNode default_config ideal_env ''X'' (Num 250) orchestrator_idle) = ''relay-''
   \<and> relaysLaunched (snd (addRelayNode default_config ideal_env ''X'' (Num 250) orchestrator_idle)) = 1
   \<and> relayNodes (broadcastStep default_config ideal_env
        \<lparr>ab_id = ''X'', ab_listenerCount = Num 250, ab_cdnActivated = True,
         ab_relaysActivated = True\<rparr> orchestrator_idle) = []
   \<and> (\<exists>st1. broadcastStep default_config ideal_env
        \<lparr>ab_id = ''X'', ab_listenerCount = Num 250, ab_cdnActivated = True,
         ab_relaysActivated = False\<rparr> orchestrator_idle =
          snd (addRelayNode default_config ideal_env ''X'' (Num 250) st1) \<and>
        relaysLaunched st1 = 0)"
proof -
  have x: "listenersIn ideal_env ''X'' ''eu-west-1'' = 3"
    "listenersIn ideal_env ''X'' ''us-east-1'' = 2"
    "listenersIn ideal_env ''X'' ''ap-southeast-1'' = 0"
    "listenersIn ideal_env ''Y'' r = 0" for r
    by (simp_all add: listenersIn_def ideal_env_def)
  have regions: "regions default_config = [''us-east-1'', ''eu-west-1'', ''ap-southeast-1'']"
    "\<not> useKubernetes default_config"
    by (simp_all add: default_config_def)
  have thr: "js_le (Num (relayActivationThreshold default_config)) (Num 250)"
    by (simp add: js_le_def default_config_def)
  have most: "selectOptimalRegion default_config (getListenerRegionDistribution ideal_env ''X'') =
      Some ''eu-west-1''"
    using addRelayNode_provisions_one [of default_config ideal_env "''X''" "Num 250"
        orchestrator_idle undefined]
    by (simp add: x regions)
  have none: "selectOptimalRegion default_config (getListenerRegionDistribution ideal_env ''Y'') =
      Some ''us-east-1''"
    using addRelayNode_provisions_one [of default_config ideal_env "''Y''" "Num 250"
        orchestrator_idle undefined]
    by (simp add: x regions)
  have most': "selectOptimalRegion (default_config\<lparr>useKubernetes := True\<rparr>)
      (getListenerRegionDistribution ideal_env ''X'') = Some ''eu-west-1''"
    using most by (simp add: selectOptimalRegion_def)
  have st: "calls orchestrator_idle = []" "relaysLaunched orchestrator_idle = 0"
    "relayNodes orchestrator_idle = []" "clock orchestrator_idle = 1000000"
    by (simp_all add: orchestrator_idle_def)
  have env: "relay_identity ideal_env 0 = (''relay-'', ''10.0.0.1'')"
    "upstreamServer ideal_env ''X'' = ''10.0.1.1''"
    by (simp_all add: ideal_env_def)
  have ecs: "map snd (calls (snd (addRelayNode default_config ideal_env ''X'' (Num 250)
        orchestrator_idle))) =
       [RegisterTaskDefinition ''X'' (Some ''eu-west-1'') ''10.0.1.1'',
        RunTask (Some ''eu-west-1''), WaitForTaskRunning ''relay-'', DescribeTasks ''relay-'',
        ConfigureRelay ''relay-'' ''X'', UpdateRoutingRules ''X'' ''relay-'',
        PublishRelayAdded ''X'' ''relay-'' ''10.0.0.1'' (Some ''eu-west-1'')]"
    "fst (addRelayNode default_config ideal_env ''X'' (Num 250) orchestrator_idle) = ''relay-''"
    "relaysLaunched (snd (addRelayNode default_config ideal_env ''X'' (Num 250)
        orchestrator_idle)) = 1"
    using addRelayNode_provisions_one [of default_config ideal_env "''X''" "Num 250"
        orchestrator_idle undefined]
    by (simp_all add: regions most st env launchCalls_def)
  have k8s: "map snd (calls (snd (addRelayNode (default_config\<lparr>useKubernetes := True\<rparr>)
        ideal_env ''X'' (Num 250) orchestrator_idle))) =
       [CreateNamespacedPod (''X'', 1000000) (Some ''eu-west-1'') ''10.0.1.1'',
        WaitForPodReady (''X'', 1000000), ReadNamespacedPod (''X'', 1000000),
        ConfigureRelay ''relay-'' ''X'', UpdateRoutingRules ''X'' ''relay-'',
        PublishRelayAdded ''X'' ''relay-'' ''10.0.0.1'' (Some ''eu-west-1'')]"
    using addRelayNode_provisions_one [of "default_config\<lparr>useKubernetes := True\<rparr>" ideal_env
        "''X''" "Num 250" orchestrator_idle undefined]
    by (simp add: most' st env launchCalls_def)
  have idle: "relayNodes (broadcastStep default_config ideal_env
        \<lparr>ab_id = ''X'', ab_listenerCount = Num 250, ab_cdnActivated = True,
         ab_relaysActivated = True\<rparr> orchestrator_idle) = []"
    using addRelayNode_provisions_one [of default_config ideal_env "''X''" "Num 250"
        orchestrator_idle
        "\<lparr>ab_id = ''X'', ab_listenerCount = Num 250, ab_cdnActivated = True,
          ab_relaysActivated = True\<rparr>"]
    by (simp add: st)
  have due: "\<exists>st1. broadcastStep default_config ideal_env
        \<lparr>ab_id = ''X'', ab_listenerCount = Num 250, ab_cdnActivated = True,
         ab_relaysActivated = False\<rparr> orchestrator_idle =
          snd (addRelayNode default_config ideal_env ''X'' (Num 250) st1) \<and>
        relaysLaunched st1 = 0"
    using thr addRelayNode_provisions_one [of default_config ideal_env "''X''" "Num 250"
        orchestrator_idle
        "\<lparr>ab_id = ''X'', ab_listenerCount = Num 250, ab_cdnActivated = True,
          ab_relaysActivated = False\<rparr>"]
    by (auto simp: st)
  from x regions most none ecs k8s idle due show ?thesis
    by simp
qed

subsection \<open>Draining\<close>












section \<open>Properties of the session registry\<close>

lemma hostOf_updates [simp]:
  "hostOf (g\<lparr>sent := x\<rparr>) = hostOf g" "hostOf (g\<lparr>sessionTable := y\<rparr>) = hostOf g"
  "hostOf (g\<lparr>activeSessions := z\<rparr>) = hostOf g" "hostOf (g\<lparr>rooms := u\<rparr>) = hostOf g"
  "hostOf (g\<lparr>presenceUsers := v\<rparr>) = hostOf g" "hostOf (g\<lparr>userSocket := w\<rparr>) = hostOf g"
  by (simp_all add: hostOf_def fun_eq_iff)

lemma updateListenerCount_Inr:
  "updateListenerCount faults b n g = Inr g' \<Longrightarrow>
   sessionTable g' = sessionTable g \<and> activeSessions g' = activeSessions g \<and>
   sent g' = sent g \<and> hostOf g' = hostOf g"
  by (auto simp: updateListenerCount_def hostOf_def update_conv' fun_eq_iff
      split: option.splits)

lemma updateListenerCount_hostOf:
  "updateListenerCount faults b n g = Inr g' \<Longrightarrow> hostOf g' = hostOf g"
  by (simp add: updateListenerCount_Inr)

lemma updateListenerCount_sessionTable:
  "updateListenerCount faults b n g = Inr g' \<Longrightarrow> sessionTable g' = sessionTable g"
  by (simp add: updateListenerCount_Inr)

lemma handleJoin_hostOf: "hostOf (handleJoin faults sock uid b g) = hostOf g"
  by (simp add: handleJoin_def reject_def Let_def updateListenerCount_hostOf
      split: option.split sum.split)

lemma handleLeave_hostOf: "hostOf (handleLeave faults sock g) = hostOf g"
  by (simp add: handleLeave_def Let_def updateListenerCount_hostOf
      split: option.split sum.split)

lemma handleJoin_refused_early:
  "(\<forall>m. faults BroadcastFind = Some m \<longrightarrow> handleJoin faults sock uid b g = reject sock m g)
   \<and> (faults BroadcastFind = None \<and> map_of (broadcastTable g) b = None \<longrightarrow>
        handleJoin faults sock uid b g = reject sock ''Broadcast not found'' g)
   \<and> (\<forall>row. faults BroadcastFind = None \<and> map_of (broadcastTable g) b = Some row \<and>
          status row = ''ended'' \<longrightarrow>
        handleJoin faults sock uid b g = reject sock ''Broadcast has ended'' g)
   \<and> (\<forall>row m. faults BroadcastFind = None \<and> map_of (broadcastTable g) b = Some row \<and>
          status row \<noteq> ''ended'' \<and> faults SessionCreate = Some m \<longrightarrow>
        handleJoin faults sock uid b g = reject sock m g)"
  by (simp add: handleJoin_def)

lemma handleJoin_sessionTable:
  assumes "faults BroadcastFind = None" "map_of (broadcastTable g) b = Some row"
    "status row \<noteq> ''ended''" "faults SessionCreate = None"
  shows "sessionTable (handleJoin faults sock uid b g) =
           sessionTable g @
             [\<lparr>s_id = length (sessionTable g), s_broadcastId = b, s_userId = uid,
               s_role = (if hostId row = uid then Host else Listener), s_socketId = sock,
               s_status = ''connected''\<rparr>]"
  using assms
  by (simp add: handleJoin_def reject_def Let_def updateListenerCount_sessionTable
      split: option.split sum.split)

lemma updateListenerCount_activeSessions:
  "updateListenerCount faults b n g = Inr g' \<Longrightarrow> activeSessions g' = activeSessions g"
  by (simp add: updateListenerCount_Inr)

lemma updateListenerCount_sent:
  "updateListenerCount faults b n g = Inr g' \<Longrightarrow> sent g' = sent g"
  by (simp add: updateListenerCount_Inr)

lemma handleJoin_activeSessions:
  assumes "faults BroadcastFind = None" "map_of (broadcastTable g) b = Some row"
    "status row \<noteq> ''ended''" "faults SessionCreate = None"
  shows "map_of (activeSessions (handleJoin faults sock uid b g)) sock =
           Some \<lparr>si_sessionId = length (sessionTable g), si_broadcastId = b, si_userId = uid,
                 si_role = (if hostId row = uid then Host else Listener)\<rparr>"
  using assms
  by (simp add: handleJoin_def reject_def Let_def updateListenerCount_activeSessions
      update_conv' split: option.split sum.split)

lemma updateListenerCount_succeeds:
  assumes "faults ListenerCountFind = None" "faults ListenerCountUpdate = None"
    "map_of (broadcastTable g) b = Some row"
  shows "\<exists>g'. updateListenerCount faults b n g = Inr g'"
  using assms by (simp add: updateListenerCount_def)

lemma handleJoin_joined:
  assumes "faults BroadcastFind = None" "map_of (broadcastTable g) b = Some row"
    "status row \<noteq> ''ended''" "faults SessionCreate = None"
    "faults SessionCount = None" "faults ListenerCountFind = None"
    "faults ListenerCountUpdate = None" "faults PresenceAdd = None"
    "faults UserSocketSet = None"
  shows "sent (handleJoin faults sock uid b g) =
           sent g @
             [(''broadcast:'' @ b,
               UserJoined uid (if hostId row = uid then Host else Listener)
                 (Suc (connectedCount b (sessionTable g)))),
              (sock,
               Joined (length (sessionTable g)) b (if hostId row = uid then Host else Listener)
                 (Suc (connectedCount b (sessionTable g))))]"
proof -
  let ?session = "\<lparr>s_id = length (sessionTable g), s_broadcastId = b, s_userId = uid,
      s_role = (if hostId row = uid then Host else Listener), s_socketId = sock,
      s_status = ''connected''\<rparr>"
  let ?g1 = "g\<lparr>sessionTable := sessionTable g @ [?session],
      activeSessions := AList.update sock
        \<lparr>si_sessionId = length (sessionTable g), si_broadcastId = b, si_userId = uid,
         si_role = (if hostId row = uid then Host else Listener)\<rparr> (activeSessions g),
      rooms := sadd (''broadcast:'' @ b) sock (rooms g)\<rparr>"
  have "map_of (broadcastTable ?g1) b = Some row" using assms(2) by simp
  from updateListenerCount_succeeds [OF assms(6) assms(7) this]
  obtain g2 where g2: "updateListenerCount faults b
      (Suc (connectedCount b (sessionTable g))) ?g1 = Inr g2"
    by blast
  have "sent g2 = sent g" using updateListenerCount_sent [OF g2] by simp
  with g2 assms show ?thesis
    by (simp add: handleJoin_def Let_def connectedCount_def)
qed

lemma handleJoin_refused_late:
  assumes "faults BroadcastFind = None" "map_of (broadcastTable g) b = Some row"
    "status row \<noteq> ''ended''" "faults SessionCreate = None"
    "\<not> (faults SessionCount = None \<and> faults ListenerCountFind = None \<and>
        faults ListenerCountUpdate = None \<and> faults PresenceAdd = None \<and>
        faults UserSocketSet = None)"
  shows "\<exists>m. sent (handleJoin faults sock uid b g) = sent g @ [(sock, ErrorEvent m)]"
proof -
  let ?session = "\<lparr>s_id = length (sessionTable g), s_broadcastId = b, s_userId = uid,
      s_role = (if hostId row = uid then Host else Listener), s_socketId = sock,
      s_status = ''connected''\<rparr>"
  let ?g1 = "g\<lparr>sessionTable := sessionTable g @ [?session],
      activeSessions := AList.update sock
        \<lparr>si_sessionId = length (sessionTable g), si_broadcastId = b, si_userId = uid,
         si_role = (if hostId row = uid then Host else Listener)\<rparr> (activeSessions g),
      rooms := sadd (''broadcast:'' @ b) sock (rooms g)\<rparr>"
  let ?n = "Suc (connectedCount b (sessionTable g))"
  show ?thesis
  proof (cases "faults SessionCount")
    case (Some m)
    with assms show ?thesis by (simp add: handleJoin_def Let_def reject_def)
  next
    case None
    show ?thesis
    proof (cases "updateListenerCount faults b ?n ?g1")
      case (Inl m)
      with None assms show ?thesis
        by (simp add: handleJoin_def Let_def reject_def connectedCount_def)
    next
      case (Inr g2)
      have s: "sent g2 = sent g" using updateListenerCount_sent [OF Inr] by simp
      have ok: "faults ListenerCountFind = None \<and> faults ListenerCountUpdate = None"
        using Inr by (simp add: updateListenerCount_def split: option.splits)
      with None assms(5) have "faults PresenceAdd \<noteq> None \<or> faults UserSocketSet \<noteq> None"
        by simp
      with None Inr s assms(1-4) show ?thesis
        by (auto simp: handleJoin_def Let_def reject_def connectedCount_def
            split: option.split)
    qed
  qed
qed

lemma hostsAreOwners_handleJoin:
  assumes "hostsAreOwners g"
  shows "hostsAreOwners (handleJoin faults sock uid b g)"
proof -
  have unchanged: "hostsAreOwners (reject sock m g)" for m
    using assms by (simp add: hostsAreOwners_def reject_def hostOf_def)
  show ?thesis
  proof (cases "faults BroadcastFind = None \<and> (\<exists>row. map_of (broadcastTable g) b = Some row
      \<and> status row \<noteq> ''ended'') \<and> faults SessionCreate = None")
    case True
    then obtain row where row: "map_of (broadcastTable g) b = Some row"
      "status row \<noteq> ''ended''" by blast
    from True row have "sessionTable (handleJoin faults sock uid b g) =
           sessionTable g @
             [\<lparr>s_id = length (sessionTable g), s_broadcastId = b, s_userId = uid,
               s_role = (if hostId row = uid then Host else Listener), s_socketId = sock,
               s_status = ''connected''\<rparr>]"
      by (simp add: handleJoin_sessionTable)
    with assms row(1) show ?thesis
      by (simp add: hostsAreOwners_def handleJoin_hostOf) (simp add: hostOf_def)
  next
    case False
    then have "\<exists>m. handleJoin faults sock uid b g = reject sock m g"
      using handleJoin_refused_early [of faults sock uid b g]
      by (cases "faults BroadcastFind"; cases "map_of (broadcastTable g) b";
          cases "faults SessionCreate") auto
    with unchanged show ?thesis by auto
  qed
qed

lemma handleLeave_sessionTable:
  "sessionTable (handleLeave faults sock g) =
     (case map_of (activeSessions g) sock of
        None \<Rightarrow> sessionTable g
      | Some info \<Rightarrow>
          (case faults SessionUpdate of
             Some m \<Rightarrow> sessionTable g
           | None \<Rightarrow>
               map (\<lambda>r. if s_id r = si_sessionId info then r\<lparr>s_status := ''disconnected''\<rparr>
                        else r) (sessionTable g)))"
  by (simp add: handleLeave_def Let_def updateListenerCount_sessionTable
      split: option.split sum.split)

lemma hostsAreOwners_handleLeave:
  assumes "hostsAreOwners g"
  shows "hostsAreOwners (handleLeave faults sock g)"
  using assms
  by (auto simp: hostsAreOwners_def handleLeave_hostOf handleLeave_sessionTable list_all_iff
      split: option.split)

text \<open>
  C5, as stated, fails: there is no conflict check. User 7 hosts broadcast \<open>X\<close> and
  joins it from socket \<open>s1\<close> and again from socket \<open>s2\<close>, no operation throwing; the
  second join is answered with \<open>joined\<close> as host, and the broadcast has two connected
  host-role sessions.
\<close>

theorem handleJoin_second_host_counterexample:
  "hostSessions ''X''
     (handleJoin no_faults ''s2'' 7 ''X'' (handleJoin no_faults ''s1'' 7 ''X'' gateway_init)) =
     [\<lparr>s_id = 0, s_broadcastId = ''X'', s_userId = 7, s_role = Host, s_socketId = ''s1'',
       s_status = ''connected''\<rparr>,
      \<lparr>s_id = 1, s_broadcastId = ''X'', s_userId = 7, s_role = Host, s_socketId = ''s2'',
       s_status = ''connected''\<rparr>]
   \<and> map snd (sent (handleJoin no_faults ''s2'' 7 ''X''
                      (handleJoin no_faults ''s1'' 7 ''X'' gateway_init))) =
     [UserJoined 7 Host 1, Joined 0 ''X'' Host 1, UserJoined 7 Host 2, Joined 1 ''X'' Host 2]"
  by (simp add: handleJoin_def updateListenerCount_def no_faults_def hostSessions_def
      gateway_init_def connectedCount_def sadd_def Let_def)

text \<open>
  C5, amended: a join is refused, with an error event, when the broadcast is absent or
  has ended, or when one of the handler's database or store operations throws. A refusal
  before the session is created has no other effect; a throw after it leaves the session
  row and the \<open>activeSessions\<close> entry in place. Otherwise the join succeeds whatever
  sessions exist. Whenever a session is created, its role is host if the joining user is
  the broadcast's host and listener if not, and a successful join sends \<open>joined\<close> with
  that role. Joining and leaving keep every host-role session a session of its
  broadcast's host, whatever throws.
\<close>

theorem handleJoin_role:
  "(\<forall>m. faults BroadcastFind = Some m \<longrightarrow> handleJoin faults sock uid b g = reject sock m g)
   \<and> (faults BroadcastFind = None \<and> map_of (broadcastTable g) b = None \<longrightarrow>
        handleJoin faults sock uid b g = reject sock ''Broadcast not found'' g)
   \<and> (\<forall>row. faults BroadcastFind = None \<and> map_of (broadcastTable g) b = Some row \<and>
          status row = ''ended'' \<longrightarrow>
        handleJoin faults sock uid b g = reject sock ''Broadcast has ended'' g)
   \<and> (\<forall>row m. faults BroadcastFind = None \<and> map_of (broadcastTable g) b = Some row \<and>
          status row \<noteq> ''ended'' \<and> faults SessionCreate = Some m \<longrightarrow>
        handleJoin faults sock uid b g = reject sock m g)
   \<and> (\<forall>row. faults BroadcastFind = None \<and> map_of (broadcastTable g) b = Some row \<and>
          status row \<noteq> ''ended'' \<and> faults SessionCreate = None \<longrightarrow>
        sessionTable (handleJoin faults sock uid b g) =
          sessionTable g @
            [\<lparr>s_id = length (sessionTable g), s_broadcastId = b, s_userId = uid,
              s_role = (if hostId row = uid then Host else Listener), s_socketId = sock,
              s_status = ''connected''\<rparr>] \<and>
        map_of (activeSessions (handleJoin faults sock uid b g)) sock =
          Some \<lparr>si_sessionId = length (sessionTable g), si_broadcastId = b, si_userId = uid,
                si_role = (if hostId row = uid then Host else Listener)\<rparr> \<and>
        (if faults SessionCount = None \<and> faults ListenerCountFind = None \<and>
            faults ListenerCountUpdate = None \<and> faults PresenceAdd = None \<and>
            faults UserSocketSet = None
         then sent (handleJoin faults sock uid b g) =
                sent g @
                  [(''broadcast:'' @ b,
                    UserJoined uid (if hostId row = uid then Host else Listener)
                      (Suc (connectedCount b (sessionTable g)))),
                   (sock,
                    Joined (length (sessionTable g)) b
                      (if hostId row = uid then Host else Listener)
                      (Suc (connectedCount b (sessionTable g))))]
         else \<exists>m. sent (handleJoin faults sock uid b g) = sent g @ [(sock, ErrorEvent m)]))
   \<and> (hostsAreOwners g \<longrightarrow>
        hostsAreOwners (handleJoin faults sock uid b g) \<and>
        hostsAreOwners (handleLeave faults sock g))"
proof -
  have late: "sessionTable (handleJoin faults sock uid b g) =
          sessionTable g @
            [\<lparr>s_id = length (sessionTable g), s_broadcastId = b, s_userId = uid,
              s_role = (if hostId row = uid then Host else Listener), s_socketId = sock,
              s_status = ''connected''\<rparr>] \<and>
        map_of (activeSessions (handleJoin faults sock uid b g)) sock =
          Some \<lparr>si_sessionId = length (sessionTable g), si_broadcastId = b, si_userId = uid,
                si_role = (if hostId row = uid then Host else Listener)\<rparr> \<and>
        (if faults SessionCount = None \<and> faults ListenerCountFind = None \<and>
            faults ListenerCountUpdate = None \<and> faults PresenceAdd = None \<and>
            faults UserSocketSet = None
         then sent (handleJoin faults sock uid b g) =
                sent g @
                  [(''broadcast:'' @ b,
                    UserJoined uid (if hostId row = uid then Host else Listener)
                      (Suc (connectedCount b (sessionTable g)))),
                   (sock,
                    Joined (length (sessionTable g)) b
                      (if hostId row = uid then Host else Listener)
                      (Suc (connectedCount b (sessionTable g))))]
         else \<exists>m. sent (handleJoin faults sock uid b g) = sent g @ [(sock, ErrorEvent m)])"
    if "faults BroadcastFind = None" "map_of (broadcastTable g) b = Some row"
       "status row \<noteq> ''ended''" "faults SessionCreate = None" for row
  proof (intro conjI)
    show "sessionTable (handleJoin faults sock uid b g) =
          sessionTable g @
            [\<lparr>s_id = length (sessionTable g), s_broadcastId = b, s_userId = uid,
              s_role = (if hostId row = uid then Host else Listener), s_socketId = sock,
              s_status = ''connected''\<rparr>]"
      using that by (rule handleJoin_sessionTable)
    show "map_of (activeSessions (handleJoin faults sock uid b g)) sock =
          Some \<lparr>si_sessionId = length (sessionTable g), si_broadcastId = b, si_userId = uid,
                si_role = (if hostId row = uid then Host else Listener)\<rparr>"
      using that by (rule handleJoin_activeSessions)
    show "if faults SessionCount = None \<and> faults ListenerCountFind = None \<and>
            faults ListenerCountUpdate = None \<and> faults PresenceAdd = None \<and>
            faults UserSocketSet = None
         then sent (handleJoin faults sock uid b g) =
                sent g @
                  [(''broadcast:'' @ b,
                    UserJoined uid (if hostId row = uid then Host else Listener)
                      (Suc (connectedCount b (sessionTable g)))),
                   (sock,
                    Joined (length (sessionTable g)) b
                      (if hostId row = uid then Host else Listener)
                      (Suc (connectedCount b (sessionTable g))))]
         else \<exists>m. sent (handleJoin faults sock uid b g) = sent g @ [(sock, ErrorEvent m)]"
    proof (cases "faults SessionCount = None \<and> faults ListenerCountFind = None \<and>
            faults ListenerCountUpdate = None \<and> faults PresenceAdd = None \<and>
            faults UserSocketSet = None")
      case True
      show ?thesis
        apply (subst if_P [OF True])
        apply (rule handleJoin_joined [OF that])
        using True by simp_all
    next
      case False
      show ?thesis
        apply (subst if_not_P [OF False])
        apply (rule handleJoin_refused_late [OF that False])
        done
    qed
  qed
  show ?thesis
    using handleJoin_refused_early [of faults sock uid b g] late
      hostsAreOwners_handleJoin [of g faults sock uid b]
      hostsAreOwners_handleLeave [of g faults sock]
    by blast
qed

theorem handleJoin_role_witness:
  "map_of (broadcastTable gateway_init) ''Z'' = None
   \<and> handleJoin no_faults ''s1'' 7 ''Z'' gateway_init =
       gateway_init\<lparr>sent := [(''s1'', ErrorEvent ''Broadcast not found'')]\<rparr>
   \<and> handleJoin no_faults ''s1'' 7 ''Y'' gateway_init =
       gateway_init\<lparr>sent := [(''s1'', ErrorEvent ''Broadcast has ended'')]\<rparr>
   \<and> handleJoin create_fails ''s1'' 7 ''X'' gateway_init =
       gateway_init\<lparr>sent := [(''s1'', ErrorEvent ''connection refused'')]\<rparr>
   \<and> sessionTable (handleJoin no_faults ''s1'' 7 ''X'' gateway_init) =
       [\<lparr>s_id = 0, s_broadcastId = ''X'', s_userId = 7, s_role = Host, s_socketId = ''s1'',
         s_status = ''connected''\<rparr>]
   \<and> sessionTable (handleJoin no_faults ''s3'' 9 ''X'' gateway_init) =
       [\<lparr>s_id = 0, s_broadcastId = ''X'', s_userId = 9, s_role = Listener, s_socketId = ''s3'',
         s_status = ''connected''\<rparr>]
   \<and> sent (handleJoin no_faults ''s1'' 7 ''X'' gateway_init) =
       [(''broadcast:X'', UserJoined 7 Host 1), (''s1'', Joined 0 ''X'' Host 1)]
   \<and> sessionTable (handleJoin count_fails ''s1'' 7 ''X'' gateway_init) =
       [\<lparr>s_id = 0, s_broadcastId = ''X'', s_userId = 7, s_role = Host, s_socketId = ''s1'',
         s_status = ''connected''\<rparr>]
   \<and> (\<exists>m. sent (handleJoin count_fails ''s1'' 7 ''X'' gateway_init) = [(''s1'', ErrorEvent m)])
   \<and> hostsAreOwners gateway_init
   \<and> hostsAreOwners (handleJoin no_faults ''s1'' 7 ''X'' gateway_init)
   \<and> hostsAreOwners (handleLeave no_faults ''s1'' gateway_init)"
proof -
  have g: "map_of (broadcastTable gateway_init) ''Z'' = None"
    "map_of (broadcastTable gateway_init) ''Y'' =
       Some \<lparr>hostId = 8, status = ''ended'', currentListenerCount = 0, peakListenerCount = 0\<rparr>"
    "map_of (broadcastTable gateway_init) ''X'' =
       Some \<lparr>hostId = 7, status = ''live'', currentListenerCount = 0, peakListenerCount = 0\<rparr>"
    "sessionTable gateway_init = []" "sent gateway_init = []"
    "hostsAreOwners gateway_init"
    by (simp_all add: gateway_init_def hostsAreOwners_def)
  have f: "no_faults op = None" "create_fails BroadcastFind = None"
    "create_fails SessionCreate = Some ''connection refused''"
    "count_fails BroadcastFind = None" "count_fails SessionCreate = None"
    "count_fails SessionCount = Some ''connection lost''" for op
    by (simp_all add: no_faults_def create_fails_def count_fails_def)
  show ?thesis
    using handleJoin_role [of no_faults "''s1''" 7 "''Z''" gateway_init]
          handleJoin_role [of no_faults "''s1''" 7 "''Y''" gateway_init]
          handleJoin_role [of no_faults "''s1''" 7 "''X''" gateway_init]
          handleJoin_role [of no_faults "''s3''" 9 "''X''" gateway_init]
          handleJoin_role [of create_fails "''s1''" 7 "''X''" gateway_init]
          handleJoin_role [of count_fails "''s1''" 7 "''X''" gateway_init]
    by (simp add: g f reject_def connectedCount_def)
qed

end
